theory Spec2Isabelle
  imports Main "HOL-Library.Word"
begin

unbundle bit_operations_syntax

section \<open>Types\<close>

text \<open>
  The library keeps a chess position as twelve 64-bit bitboards plus a square-indexed
  array of pieces. All enumerations of \<^verbatim>\<open>chess.hpp\<close> have the underlying type
  \<^verbatim>\<open>uint8_t\<close> and the code does arithmetic on them (\<^verbatim>\<open>6 * color + type\<close>,
  \<^verbatim>\<open>Square(square + 1)\<close>, casts out of a packed move), so squares, pieces and piece
  types are natural numbers here, with the enumerators as named constants. Only
  \<^verbatim>\<open>Color\<close>, which takes no value but its two enumerators, is a datatype.
\<close>

type_synonym Bitboard = "64 word"
type_synonym Square = nat
type_synonym Piece = nat
type_synonym PieceType = nat

datatype Color = White | Black

fun color_index :: "Color \<Rightarrow> nat" where
  "color_index White = 0"
| "color_index Black = 1"

text \<open>\<^verbatim>\<open>operator~\<close> on colours: \<^verbatim>\<open>Color(C ^ Black)\<close>.\<close>

fun opposite :: "Color \<Rightarrow> Color" where
  "opposite White = Black"
| "opposite Black = White"

definition WhitePawn :: Piece where [simp]: "WhitePawn = 0"
definition WhiteKnight :: Piece where [simp]: "WhiteKnight = 1"
definition WhiteBishop :: Piece where [simp]: "WhiteBishop = 2"
definition WhiteRook :: Piece where [simp]: "WhiteRook = 3"
definition WhiteQueen :: Piece where [simp]: "WhiteQueen = 4"
definition WhiteKing :: Piece where [simp]: "WhiteKing = 5"
definition BlackPawn :: Piece where [simp]: "BlackPawn = 6"
definition BlackKnight :: Piece where [simp]: "BlackKnight = 7"
definition BlackBishop :: Piece where [simp]: "BlackBishop = 8"
definition BlackRook :: Piece where [simp]: "BlackRook = 9"
definition BlackQueen :: Piece where [simp]: "BlackQueen = 10"
definition BlackKing :: Piece where [simp]: "BlackKing = 11"
definition None_piece :: Piece where [simp]: "None_piece = 12"

definition Pawn :: PieceType where [simp]: "Pawn = 0"
definition Knight :: PieceType where [simp]: "Knight = 1"
definition Bishop :: PieceType where [simp]: "Bishop = 2"
definition Rook :: PieceType where [simp]: "Rook = 3"
definition Queen :: PieceType where [simp]: "Queen = 4"
definition King :: PieceType where [simp]: "King = 5"

definition SQ_A1 :: Square where [simp]: "SQ_A1 = 0"
definition SQ_B1 :: Square where [simp]: "SQ_B1 = 1"
definition SQ_C1 :: Square where [simp]: "SQ_C1 = 2"
definition SQ_D1 :: Square where [simp]: "SQ_D1 = 3"
definition SQ_E1 :: Square where [simp]: "SQ_E1 = 4"
definition SQ_F1 :: Square where [simp]: "SQ_F1 = 5"
definition SQ_G1 :: Square where [simp]: "SQ_G1 = 6"
definition SQ_H1 :: Square where [simp]: "SQ_H1 = 7"
definition SQ_A8 :: Square where [simp]: "SQ_A8 = 56"
definition SQ_B8 :: Square where [simp]: "SQ_B8 = 57"
definition SQ_C8 :: Square where [simp]: "SQ_C8 = 58"
definition SQ_D8 :: Square where [simp]: "SQ_D8 = 59"
definition SQ_E8 :: Square where [simp]: "SQ_E8 = 60"
definition SQ_F8 :: Square where [simp]: "SQ_F8 = 61"
definition SQ_G8 :: Square where [simp]: "SQ_G8 = 62"
definition SQ_H8 :: Square where [simp]: "SQ_H8 = 63"
definition NO_SQ :: Square where [simp]: "NO_SQ = 64"

definition whiteKingSideCastling :: "8 word" where [simp]: "whiteKingSideCastling = 1"
definition whiteQueenSideCastling :: "8 word" where [simp]: "whiteQueenSideCastling = 2"
definition blackKingSideCastling :: "8 word" where [simp]: "blackKingSideCastling = 4"
definition blackQueenSideCastling :: "8 word" where [simp]: "blackQueenSideCastling = 8"

section \<open>Bitboards\<close>

text \<open>
  A C++ array read outside its bounds and a shift by 64 or more are undefined behaviour.
  The model gives both the value 0 (\<open>lookup\<close>, \<open>push_bit\<close>); the positions the theorems
  below evaluate never reach either.
\<close>

definition lookup :: "'a::zero list \<Rightarrow> nat \<Rightarrow> 'a" where
  "lookup xs i = (if i < length xs then xs ! i else 0)"

text \<open>\<^verbatim>\<open>1ULL << n\<close> for an \<^verbatim>\<open>int\<close> shift count.\<close>

definition shl1 :: "int \<Rightarrow> Bitboard" where
  "shl1 n = (if 0 \<le> n \<and> n < 64 then push_bit (nat n) 1 else 0)"

definition SQUARE_BB :: "Bitboard list" where
  "SQUARE_BB = [
    0x1, 0x2, 0x4, 0x8,
    0x10, 0x20, 0x40, 0x80,
    0x100, 0x200, 0x400, 0x800,
    0x1000, 0x2000, 0x4000, 0x8000,
    0x10000, 0x20000, 0x40000, 0x80000,
    0x100000, 0x200000, 0x400000, 0x800000,
    0x1000000, 0x2000000, 0x4000000, 0x8000000,
    0x10000000, 0x20000000, 0x40000000, 0x80000000,
    0x100000000, 0x200000000, 0x400000000, 0x800000000,
    0x1000000000, 0x2000000000, 0x4000000000, 0x8000000000,
    0x10000000000, 0x20000000000, 0x40000000000, 0x80000000000,
    0x100000000000, 0x200000000000, 0x400000000000, 0x800000000000,
    0x1000000000000, 0x2000000000000, 0x4000000000000, 0x8000000000000,
    0x10000000000000, 0x20000000000000, 0x40000000000000, 0x80000000000000,
    0x100000000000000, 0x200000000000000, 0x400000000000000, 0x800000000000000,
    0x1000000000000000, 0x2000000000000000, 0x4000000000000000, 0x8000000000000000]"

definition MASK_FILE :: "Bitboard list" where
  "MASK_FILE = [
    0x101010101010101, 0x202020202020202, 0x404040404040404, 0x808080808080808,
    0x1010101010101010, 0x2020202020202020, 0x4040404040404040, 0x8080808080808080]"

definition MASK_RANK :: "Bitboard list" where
  "MASK_RANK = [
    0xff, 0xff00, 0xff0000, 0xff000000,
    0xff00000000, 0xff0000000000, 0xff000000000000, 0xff00000000000000]"

definition MASK_DIAGONAL :: "Bitboard list" where
  "MASK_DIAGONAL = [
    0x80, 0x8040, 0x804020, 0x80402010,
    0x8040201008, 0x804020100804, 0x80402010080402, 0x8040201008040201,
    0x4020100804020100, 0x2010080402010000, 0x1008040201000000, 0x804020100000000,
    0x402010000000000, 0x201000000000000, 0x100000000000000]"

definition MASK_ANTI_DIAGONAL :: "Bitboard list" where
  "MASK_ANTI_DIAGONAL = [
    0x1, 0x102, 0x10204, 0x1020408,
    0x102040810, 0x10204081020, 0x1020408102040, 0x102040810204080,
    0x204081020408000, 0x408102040800000, 0x810204080000000, 0x1020408000000000,
    0x2040800000000000, 0x4080000000000000, 0x8000000000000000]"

definition KNIGHT_ATTACKS_TABLE :: "Bitboard list" where
  "KNIGHT_ATTACKS_TABLE = [
    0x0000000000020400, 0x0000000000050800, 0x00000000000A1100, 0x0000000000142200,
    0x0000000000284400, 0x0000000000508800, 0x0000000000A01000, 0x0000000000402000,
    0x0000000002040004, 0x0000000005080008, 0x000000000A110011, 0x0000000014220022,
    0x0000000028440044, 0x0000000050880088, 0x00000000A0100010, 0x0000000040200020,
    0x0000000204000402, 0x0000000508000805, 0x0000000A1100110A, 0x0000001422002214,
    0x0000002844004428, 0x0000005088008850, 0x000000A0100010A0, 0x0000004020002040,
    0x0000020400040200, 0x0000050800080500, 0x00000A1100110A00, 0x0000142200221400,
    0x0000284400442800, 0x0000508800885000, 0x0000A0100010A000, 0x0000402000204000,
    0x0002040004020000, 0x0005080008050000, 0x000A1100110A0000, 0x0014220022140000,
    0x0028440044280000, 0x0050880088500000, 0x00A0100010A00000, 0x0040200020400000,
    0x0204000402000000, 0x0508000805000000, 0x0A1100110A000000, 0x1422002214000000,
    0x2844004428000000, 0x5088008850000000, 0xA0100010A0000000, 0x4020002040000000,
    0x0400040200000000, 0x0800080500000000, 0x1100110A00000000, 0x2200221400000000,
    0x4400442800000000, 0x8800885000000000, 0x100010A000000000, 0x2000204000000000,
    0x0004020000000000, 0x0008050000000000, 0x00110A0000000000, 0x0022140000000000,
    0x0044280000000000, 0x0088500000000000, 0x0010A00000000000, 0x0020400000000000]"

definition KING_ATTACKS_TABLE :: "Bitboard list" where
  "KING_ATTACKS_TABLE = [
    0x0000000000000302, 0x0000000000000705, 0x0000000000000E0A, 0x0000000000001C14,
    0x0000000000003828, 0x0000000000007050, 0x000000000000E0A0, 0x000000000000C040,
    0x0000000000030203, 0x0000000000070507, 0x00000000000E0A0E, 0x00000000001C141C,
    0x0000000000382838, 0x0000000000705070, 0x0000000000E0A0E0, 0x0000000000C040C0,
    0x0000000003020300, 0x0000000007050700, 0x000000000E0A0E00, 0x000000001C141C00,
    0x0000000038283800, 0x0000000070507000, 0x00000000E0A0E000, 0x00000000C040C000,
    0x0000000302030000, 0x0000000705070000, 0x0000000E0A0E0000, 0x0000001C141C0000,
    0x0000003828380000, 0x0000007050700000, 0x000000E0A0E00000, 0x000000C040C00000,
    0x0000030203000000, 0x0000070507000000, 0x00000E0A0E000000, 0x00001C141C000000,
    0x0000382838000000, 0x0000705070000000, 0x0000E0A0E0000000, 0x0000C040C0000000,
    0x0003020300000000, 0x0007050700000000, 0x000E0A0E00000000, 0x001C141C00000000,
    0x0038283800000000, 0x0070507000000000, 0x00E0A0E000000000, 0x00C040C000000000,
    0x0302030000000000, 0x0705070000000000, 0x0E0A0E0000000000, 0x1C141C0000000000,
    0x3828380000000000, 0x7050700000000000, 0xE0A0E00000000000, 0xC040C00000000000,
    0x0203000000000000, 0x0507000000000000, 0x0A0E000000000000, 0x141C000000000000,
    0x2838000000000000, 0x5070000000000000, 0xA0E0000000000000, 0x40C0000000000000]"

definition PAWN_ATTACKS_TABLE_White :: "Bitboard list" where
  "PAWN_ATTACKS_TABLE_White = [
    0x200, 0x500, 0xa00, 0x1400,
    0x2800, 0x5000, 0xa000, 0x4000,
    0x20000, 0x50000, 0xa0000, 0x140000,
    0x280000, 0x500000, 0xa00000, 0x400000,
    0x2000000, 0x5000000, 0xa000000, 0x14000000,
    0x28000000, 0x50000000, 0xa0000000, 0x40000000,
    0x200000000, 0x500000000, 0xa00000000, 0x1400000000,
    0x2800000000, 0x5000000000, 0xa000000000, 0x4000000000,
    0x20000000000, 0x50000000000, 0xa0000000000, 0x140000000000,
    0x280000000000, 0x500000000000, 0xa00000000000, 0x400000000000,
    0x2000000000000, 0x5000000000000, 0xa000000000000, 0x14000000000000,
    0x28000000000000, 0x50000000000000, 0xa0000000000000, 0x40000000000000,
    0x200000000000000, 0x500000000000000, 0xa00000000000000, 0x1400000000000000,
    0x2800000000000000, 0x5000000000000000, 0xa000000000000000, 0x4000000000000000,
    0x0, 0x0, 0x0, 0x0,
    0x0, 0x0, 0x0, 0x0]"

definition PAWN_ATTACKS_TABLE_Black :: "Bitboard list" where
  "PAWN_ATTACKS_TABLE_Black = [
    0x0, 0x0, 0x0, 0x0,
    0x0, 0x0, 0x0, 0x0,
    0x2, 0x5, 0xa, 0x14,
    0x28, 0x50, 0xa0, 0x40,
    0x200, 0x500, 0xa00, 0x1400,
    0x2800, 0x5000, 0xa000, 0x4000,
    0x20000, 0x50000, 0xa0000, 0x140000,
    0x280000, 0x500000, 0xa00000, 0x400000,
    0x2000000, 0x5000000, 0xa000000, 0x14000000,
    0x28000000, 0x50000000, 0xa0000000, 0x40000000,
    0x200000000, 0x500000000, 0xa00000000, 0x1400000000,
    0x2800000000, 0x5000000000, 0xa000000000, 0x4000000000,
    0x20000000000, 0x50000000000, 0xa0000000000, 0x140000000000,
    0x280000000000, 0x500000000000, 0xa00000000000, 0x400000000000,
    0x2000000000000, 0x5000000000000, 0xa000000000000, 0x14000000000000,
    0x28000000000000, 0x50000000000000, 0xa0000000000000, 0x40000000000000]"


definition all_squares :: "Square list" where
  "all_squares = [0..<64]"

text \<open>\<^verbatim>\<open>_BitScanForward64\<close> leaves its result unset on 0; the model answers 64 there.\<close>

definition bsf :: "Bitboard \<Rightarrow> Square" where
  "bsf bb = (case find (\<lambda>i. bit bb i) all_squares of Some i \<Rightarrow> i | None \<Rightarrow> 64)"

definition reverse :: "Bitboard \<Rightarrow> Bitboard" where
  "reverse bb0 =
    (let bb = push_bit 1 (bb0 AND 0x5555555555555555) OR (drop_bit 1 bb0 AND 0x5555555555555555);
         bb = push_bit 2 (bb AND 0x3333333333333333) OR (drop_bit 2 bb AND 0x3333333333333333);
         bb = push_bit 4 (bb AND 0x0f0f0f0f0f0f0f0f) OR (drop_bit 4 bb AND 0x0f0f0f0f0f0f0f0f);
         bb = push_bit 8 (bb AND 0x00ff00ff00ff00ff) OR (drop_bit 8 bb AND 0x00ff00ff00ff00ff)
     in push_bit 48 bb OR push_bit 16 (bb AND 0xffff0000)
        OR (drop_bit 16 bb AND 0xffff0000) OR drop_bit 48 bb)"

definition popCount :: "Bitboard \<Rightarrow> int" where
  "popCount x0 =
    (let x = x0 - (drop_bit 1 x0 AND 0x5555555555555555);
         x = (x AND 0x3333333333333333) + (drop_bit 2 x AND 0x3333333333333333);
         x = (x + drop_bit 4 x) AND 0x0f0f0f0f0f0f0f0f;
         x = drop_bit 56 (x * 0x0101010101010101)
     in uint x)"

text \<open>
  \<^verbatim>\<open>poplsb\<close> returns the lowest set square and clears it. Every loop of the form
  \<^verbatim>\<open>while (bb) { sq = poplsb(bb); ... }\<close> visits the squares \<open>squares bb\<close> in this order.
\<close>

definition poplsb :: "Bitboard \<Rightarrow> Square \<times> Bitboard" where
  "poplsb bb = (bsf bb, bb AND (bb - 1))"

function squares :: "Bitboard \<Rightarrow> Square list" where
  "squares bb = (if bb = 0 then [] else fst (poplsb bb) # squares (snd (poplsb bb)))"
  by pat_completeness auto
termination
proof (relation "measure unat")
  show "wf (measure unat)" by simp
next
  fix bb :: Bitboard
  assume nz: "bb \<noteq> 0"
  have "bb AND (bb - 1) \<le> bb - 1" by (rule word_and_le1)
  moreover have "bb - 1 < bb"
    using nz by (simp add: word_less_nat_alt unat_minus_one unat_gt_0)
  ultimately have "bb AND (bb - 1) < bb" by simp
  then show "(snd (poplsb bb), bb) \<in> measure unat"
    by (simp add: poplsb_def word_less_nat_alt)
qed

declare squares.simps [simp del]

section \<open>Helper functions\<close>

text \<open>\<^verbatim>\<open>sq >> 3\<close> and \<^verbatim>\<open>sq & 7\<close> on an unsigned square: quotient and remainder by 8.\<close>

definition rank_of :: "Square \<Rightarrow> nat" where
  "rank_of sq = sq div 8"

definition file_of :: "Square \<Rightarrow> nat" where
  "file_of sq = sq mod 8"

definition diagonal_of :: "Square \<Rightarrow> nat" where
  "diagonal_of sq = 7 + rank_of sq - file_of sq"

definition anti_diagonal_of :: "Square \<Rightarrow> nat" where
  "anti_diagonal_of sq = rank_of sq + file_of sq"

definition makePiece :: "PieceType \<Rightarrow> Color \<Rightarrow> Piece" where
  "makePiece type color = 6 * color_index color + type"

definition squareDistance :: "Square \<Rightarrow> Square \<Rightarrow> int" where
  "squareDistance a b =
     max \<bar>int (file_of a) - int (file_of b)\<bar> \<bar>int (rank_of a) - int (rank_of b)\<bar>"

section \<open>Attack generation\<close>

definition hyp_quint :: "Square \<Rightarrow> Bitboard \<Rightarrow> Bitboard \<Rightarrow> Bitboard" where
  "hyp_quint square occ msk =
     ((((msk AND occ) - lookup SQUARE_BB square * 2) XOR
       reverse (reverse (msk AND occ) - reverse (lookup SQUARE_BB square) * 2)) AND msk)"

definition GetPawnPush :: "Square \<Rightarrow> Color \<Rightarrow> Bitboard" where
  "GetPawnPush sq c =
     (case c of White \<Rightarrow> lookup SQUARE_BB (sq + 8)
      | Black \<Rightarrow> (if sq < 8 then 0 else lookup SQUARE_BB (sq - 8)))"

definition GetPawnAttacks :: "Square \<Rightarrow> Color \<Rightarrow> Bitboard" where
  "GetPawnAttacks square c =
     (case c of White \<Rightarrow> lookup PAWN_ATTACKS_TABLE_White square
      | Black \<Rightarrow> lookup PAWN_ATTACKS_TABLE_Black square)"

definition GetKnightAttacks :: "Square \<Rightarrow> Bitboard" where
  "GetKnightAttacks square = lookup KNIGHT_ATTACKS_TABLE square"

definition GetBishopAttacks :: "Square \<Rightarrow> Bitboard \<Rightarrow> Bitboard" where
  "GetBishopAttacks square occ =
     (hyp_quint square occ (lookup MASK_DIAGONAL (diagonal_of square)) OR
      hyp_quint square occ (lookup MASK_ANTI_DIAGONAL (anti_diagonal_of square)))"

definition GetRookAttacks :: "Square \<Rightarrow> Bitboard \<Rightarrow> Bitboard" where
  "GetRookAttacks square occ =
     (hyp_quint square occ (lookup MASK_FILE (file_of square)) OR
      hyp_quint square occ (lookup MASK_RANK (rank_of square)))"

definition GetQueenAttacks :: "Square \<Rightarrow> Bitboard \<Rightarrow> Bitboard" where
  "GetQueenAttacks square occ = (GetBishopAttacks square occ OR GetRookAttacks square occ)"

definition GetKingAttacks :: "Square \<Rightarrow> Bitboard" where
  "GetKingAttacks square = lookup KING_ATTACKS_TABLE square"

section \<open>Moves\<close>

text \<open>A move is packed into a \<^verbatim>\<open>uint32_t\<close>: source, target, piece, promoted piece, four flags.\<close>

type_synonym Move = "32 word"

definition Move :: "Square \<Rightarrow> Square \<Rightarrow> Piece \<Rightarrow> Piece \<Rightarrow>
    32 word \<Rightarrow> 32 word \<Rightarrow> 32 word \<Rightarrow> 32 word \<Rightarrow> Move" where
  "Move source target piece promoted capture doublePush enpassant castling =
     (of_nat source OR push_bit 6 (of_nat target) OR push_bit 12 (of_nat piece) OR
      push_bit 16 (of_nat promoted) OR push_bit 20 capture OR push_bit 21 doublePush OR
      push_bit 22 enpassant OR push_bit 23 castling)"

definition move_source :: "Move \<Rightarrow> Square" where
  "move_source m = unat (m AND 0x3f)"

definition move_target :: "Move \<Rightarrow> Square" where
  "move_target m = unat (drop_bit 6 (m AND 0xfc0))"

definition move_piece :: "Move \<Rightarrow> Piece" where
  "move_piece m = unat (drop_bit 12 (m AND 0xf000))"

definition move_promoted :: "Move \<Rightarrow> Piece" where
  "move_promoted m = unat (drop_bit 16 (m AND 0xf0000))"

definition move_capture :: "Move \<Rightarrow> bool" where
  "move_capture m = (drop_bit 20 (m AND 0x100000) \<noteq> 0)"

definition move_doublePush :: "Move \<Rightarrow> bool" where
  "move_doublePush m = (drop_bit 21 (m AND 0x200000) \<noteq> 0)"

definition move_enpassant :: "Move \<Rightarrow> bool" where
  "move_enpassant m = (drop_bit 22 (m AND 0x400000) \<noteq> 0)"

definition move_castling :: "Move \<Rightarrow> bool" where
  "move_castling m = (drop_bit 23 (m AND 0x800000) \<noteq> 0)"

text \<open>
  \<^verbatim>\<open>struct Moves\<close> is a buffer of 256 moves and a \<^verbatim>\<open>uint8_t count\<close>; \<^verbatim>\<open>Add\<close> stores at
  \<^verbatim>\<open>moves[count]\<close> and increments \<^verbatim>\<open>count\<close>, which wraps at 256. The model keeps the
  sequence of moves added; \<open>count\<close> is the field the code reads.
\<close>

type_synonym Moves = "Move list"

definition Add :: "Move \<Rightarrow> Moves \<Rightarrow> Moves" where
  "Add m moveList = moveList @ [m]"


section \<open>Board\<close>

record State =
  PiecesCopyBB :: "Bitboard list"
  boardCopy :: "Piece list"
  sideToMoveCopy :: Color
  enpassantCopy :: Square
  castlingRightsCopy :: "8 word"

text \<open>
  The fields of \<^verbatim>\<open>class Board\<close> in \<^verbatim>\<open>chess.hpp\<close>, and after them the three members that
  only \<^verbatim>\<open>chess.cpp\<close> uses (\<^verbatim>\<open>halfMoveClock\<close>, \<^verbatim>\<open>fullMoveCounter\<close>, \<^verbatim>\<open>hashKey\<close>).
  \<^verbatim>\<open>gameHistory\<close> is never read or written and is left out.
\<close>

record Board =
  PiecesBB :: "Bitboard list"
  board :: "Piece list"
  sideToMove :: Color
  enpassantSquare :: Square
  castlingRights :: "8 word"
  storeInfo :: "State list"
  checkMask :: Bitboard
  pinMaskHV :: Bitboard
  pinMaskD :: Bitboard
  doubleCheck :: "8 word"
  halfMoveClock :: "8 word"
  fullMoveCounter :: "16 word"
  hashKey :: "64 word"

definition ALL_SQUARES :: Bitboard where
  "ALL_SQUARES = 18446744073709551615"

definition placePiece :: "Piece \<Rightarrow> Square \<Rightarrow> Board \<Rightarrow> Board" where
  "placePiece piece sq b =
     b\<lparr>board := (board b)[sq := piece],
       PiecesBB := (PiecesBB b)[piece := lookup (PiecesBB b) piece OR lookup SQUARE_BB sq]\<rparr>"

definition removePiece :: "Piece \<Rightarrow> Square \<Rightarrow> Board \<Rightarrow> Board" where
  "removePiece piece sq b =
     b\<lparr>PiecesBB := (PiecesBB b)[piece := lookup (PiecesBB b) piece AND NOT (lookup SQUARE_BB sq)],
       board := (board b)[sq := None_piece]\<rparr>"

definition PieceBB :: "Board \<Rightarrow> PieceType \<Rightarrow> Color \<Rightarrow> Bitboard" where
  "PieceBB b type c = lookup (PiecesBB b) (color_index c * 6 + type)"

definition Pawns :: "Board \<Rightarrow> Color \<Rightarrow> Bitboard" where
  "Pawns b c = lookup (PiecesBB b) (color_index c * 6)"

definition Knights :: "Board \<Rightarrow> Color \<Rightarrow> Bitboard" where
  "Knights b c = lookup (PiecesBB b) (color_index c * 6 + Knight)"

definition Bishops :: "Board \<Rightarrow> Color \<Rightarrow> Bitboard" where
  "Bishops b c = lookup (PiecesBB b) (color_index c * 6 + Bishop)"

definition Rooks :: "Board \<Rightarrow> Color \<Rightarrow> Bitboard" where
  "Rooks b c = lookup (PiecesBB b) (color_index c * 6 + Rook)"

definition Queens :: "Board \<Rightarrow> Color \<Rightarrow> Bitboard" where
  "Queens b c = lookup (PiecesBB b) (color_index c * 6 + Queen)"

definition Kings :: "Board \<Rightarrow> Color \<Rightarrow> Bitboard" where
  "Kings b c = lookup (PiecesBB b) (color_index c * 6 + King)"

definition allPieces :: "Board \<Rightarrow> Color \<Rightarrow> Bitboard" where
  "allPieces b c =
     (Pawns b c OR Knights b c OR Bishops b c OR Rooks b c OR Queens b c OR Kings b c)"

definition Enemy :: "Board \<Rightarrow> Color \<Rightarrow> Bitboard" where
  "Enemy b c = (if c = White then allPieces b Black else allPieces b White)"

definition EnemyEmpty :: "Board \<Rightarrow> Color \<Rightarrow> Bitboard" where
  "EnemyEmpty b c = (if c = White then NOT (allPieces b White) else NOT (allPieces b Black))"

definition KingSq :: "Board \<Rightarrow> Color \<Rightarrow> Square" where
  "KingSq b c = (if c = White then bsf (Kings b White) else bsf (Kings b Black))"

definition getPiece :: "Board \<Rightarrow> Square \<Rightarrow> Piece" where
  "getPiece b sq = lookup (board b) sq"

subsection \<open>Attack query\<close>

definition isSquareAttacked :: "Board \<Rightarrow> Square \<Rightarrow> Color \<Rightarrow> bool" where
  "isSquareAttacked b sq color =
     (if sq \<noteq> NO_SQ then
        (if GetPawnAttacks sq (opposite color) AND Pawns b color \<noteq> 0 then True
         else if GetKnightAttacks sq AND Knights b color \<noteq> 0 then True
         else if GetBishopAttacks sq (allPieces b White OR allPieces b Black) AND Bishops b color \<noteq> 0
           then True
         else if GetRookAttacks sq (allPieces b White OR allPieces b Black) AND Rooks b color \<noteq> 0
           then True
         else if GetQueenAttacks sq (allPieces b White OR allPieces b Black) AND Queens b color \<noteq> 0
           then True
         else False)
      else False)"

subsection \<open>Pin and check analysis\<close>

definition doCheckmask :: "Color \<Rightarrow> Square \<Rightarrow> Board \<Rightarrow> Bitboard \<times> Board" where
  "doCheckmask c sq b =
    (let checks = 0;
         pawn_attack = GetPawnAttacks sq c;
         knight_attack = GetKnightAttacks sq;
         bishop_attack = GetBishopAttacks sq (allPieces b c OR allPieces b (opposite c))
                           AND NOT (allPieces b c);
         rook_attack = GetRookAttacks sq (allPieces b c OR allPieces b (opposite c))
                           AND NOT (allPieces b c);
         pawn_mask = pawn_attack AND Pawns b (opposite c);
         knight_mask = knight_attack AND Knights b (opposite c);
         bishop_mask = bishop_attack AND (Bishops b (opposite c) OR Queens b (opposite c));
         rook_mask = rook_attack AND (Rooks b (opposite c) OR Queens b (opposite c));
         dc = (0 :: 8 word);
         (checks, dc) = (if pawn_mask \<noteq> 0 then (checks OR pawn_mask, dc + 1) else (checks, dc));
         (checks, dc) = (if knight_mask \<noteq> 0 then (checks OR knight_mask, dc + 1) else (checks, dc));
         (checks, dc) = (if bishop_mask \<noteq> 0
            then (checks OR ((bishop_attack AND GetBishopAttacks (bsf bishop_mask) (allPieces b c))
                             OR push_bit (bsf bishop_mask) 1), dc + 1)
            else (checks, dc));
         (checks, dc) = (if rook_mask \<noteq> 0
            then (checks OR ((rook_attack AND GetRookAttacks (bsf rook_mask) (allPieces b c))
                             OR push_bit (bsf rook_mask) 1), dc + 1)
            else (checks, dc))
     in (checks, b\<lparr>doubleCheck := dc\<rparr>))"

text \<open>
  The body of the two \<^verbatim>\<open>while\<close> loops of \<^verbatim>\<open>create_pins\<close>: \<open>attack\<close> is the ray set seen
  from the king, \<open>back\<close> the ray set seen from the candidate pinner \<open>index\<close>.
\<close>

definition pin_step :: "Board \<Rightarrow> Color \<Rightarrow> Bitboard \<Rightarrow> (Square \<Rightarrow> Bitboard \<Rightarrow> Bitboard) \<Rightarrow>
    Square \<Rightarrow> Bitboard \<Rightarrow> Bitboard" where
  "pin_step b c attack back index pin =
    (let possible_pin = (attack AND back index (Kings b c)) OR push_bit index 1
     in if popCount (possible_pin AND allPieces b c) = 1 then pin OR possible_pin else pin)"

definition create_pins :: "Color \<Rightarrow> Square \<Rightarrow> Board \<Rightarrow> Board" where
  "create_pins c sq b =
    (let rook_attack = GetRookAttacks sq (allPieces b (opposite c));
         bishop_attack = GetBishopAttacks sq (allPieces b (opposite c));
         rook_mask = rook_attack AND (Rooks b (opposite c) OR Queens b (opposite c));
         bishop_mask = bishop_attack AND (Bishops b (opposite c) OR Queens b (opposite c));
         rook_pin = fold (pin_step b c rook_attack GetRookAttacks) (squares rook_mask) 0;
         bishop_pin = fold (pin_step b c bishop_attack GetBishopAttacks) (squares bishop_mask) 0
     in b\<lparr>pinMaskHV := rook_pin, pinMaskD := bishop_pin\<rparr>)"

definition init :: "Color \<Rightarrow> Square \<Rightarrow> Board \<Rightarrow> Board" where
  "init c sq b =
    (let r = doCheckmask c sq b;
         msk = fst r;
         b2 = (snd r)\<lparr>checkMask := (if msk \<noteq> 0 then msk else ALL_SQUARES)\<rparr>
     in create_pins c sq b2)"

subsection \<open>Legal destinations per piece\<close>

text \<open>
  \<^verbatim>\<open>LegalPawnMoves\<close> and \<^verbatim>\<open>LegalKingMoves\<close> write to the board while they test a
  square, so they return the board with their result. \<open>ep_offset\<close> is the
  \<^verbatim>\<open>int8_t offset\<close> from the en-passant square to the pawn that would be captured.
\<close>

definition ep_offset :: "Color \<Rightarrow> int" where
  "ep_offset c = (if c = White then - 8 else 8)"

text \<open>
  The en-passant test of \<^verbatim>\<open>LegalPawnMoves\<close> lifts both pawns off their bitboards and puts
  the capturing pawn on the en-passant square (\<open>ep_test_setup\<close>), asks whether the king is
  attacked, and then writes the three changes back (\<open>ep_test_undo\<close>).
\<close>

definition ep_test_setup :: "Color \<Rightarrow> Square \<Rightarrow> Board \<Rightarrow> Board" where
  "ep_test_setup c sq b =
    (let own = Pawn + 6 * color_index c;
         opp = Pawn + 6 * color_index (opposite c);
         ep = enpassantSquare b;
         b1 = b\<lparr>PiecesBB := (PiecesBB b)
                 [own := lookup (PiecesBB b) own AND NOT (push_bit sq 1)]\<rparr>;
         b2 = b1\<lparr>PiecesBB := (PiecesBB b1)
                 [opp := lookup (PiecesBB b1) opp AND NOT (shl1 (int ep + ep_offset c))]\<rparr>
     in placePiece (makePiece Pawn c) ep b2)"

definition ep_test_undo :: "Color \<Rightarrow> Square \<Rightarrow> Board \<Rightarrow> Board" where
  "ep_test_undo c sq b =
    (let own = Pawn + 6 * color_index c;
         opp = Pawn + 6 * color_index (opposite c);
         ep = enpassantSquare b;
         b4 = removePiece (makePiece Pawn c) ep b;
         b5 = b4\<lparr>PiecesBB := (PiecesBB b4)
                 [own := lookup (PiecesBB b4) own OR push_bit sq 1]\<rparr>
     in b5\<lparr>PiecesBB := (PiecesBB b5)
                 [opp := lookup (PiecesBB b5) opp OR shl1 (int ep + ep_offset c)]\<rparr>)"

definition LegalPawnMoves :: "Color \<Rightarrow> Square \<Rightarrow> Board \<Rightarrow> Bitboard \<times> Board" where
  "LegalPawnMoves c sq b =
    (if doubleCheck b = 2 then (0, b)
     else if pinMaskD b AND push_bit sq 1 \<noteq> 0
       then (GetPawnAttacks sq c AND pinMaskD b AND checkMask b AND Enemy b c, b)
     else
       let not_all = NOT (allPieces b c) AND NOT (allPieces b (opposite c));
           attacks = GetPawnAttacks sq c;
           push = GetPawnPush sq c AND not_all;
           push = (if c = White \<and> rank_of sq = 1 then push OR (push_bit 8 push AND not_all)
                   else if c = Black \<and> rank_of sq = 6 then push OR (drop_bit 8 push AND not_all)
                   else push);
           push2 = (if c = White \<and> rank_of sq = 1 then push
                    else if c = Black \<and> rank_of sq = 6 then push
                    else 0);
           offset = ep_offset c;
           ep = enpassantSquare b
       in if pinMaskHV b AND push_bit sq 1 \<noteq> 0
            then ((push OR push2) AND pinMaskHV b AND checkMask b, b)
          else if checkMask b \<noteq> ALL_SQUARES \<and> attacks AND push_bit ep 1 \<noteq> 0
                  \<and> checkMask b AND shl1 (int ep + offset) \<noteq> 0
            then (GetPawnAttacks sq c AND push_bit ep 1, b)
          else if checkMask b \<noteq> ALL_SQUARES
            then (((GetPawnAttacks sq c AND Enemy b c) OR push OR push2) AND checkMask b, b)
          else
            let moves = ((attacks AND Enemy b c) OR push OR push2) AND checkMask b
            in if ep \<noteq> NO_SQ \<and> squareDistance sq ep = 1 \<and> push_bit ep 1 AND attacks \<noteq> 0
               then
                 let b3 = ep_test_setup c sq b;
                     moves = (if \<not> isSquareAttacked b3 (KingSq b3 c) (opposite c)
                              then moves OR push_bit ep 1 else moves)
                 in (moves, ep_test_undo c sq b3)
               else (moves, b))"

definition LegalKnightMoves :: "Color \<Rightarrow> Square \<Rightarrow> Board \<Rightarrow> Bitboard" where
  "LegalKnightMoves c sq b =
    (if doubleCheck b = 2 then 0
     else if (pinMaskHV b OR pinMaskD b) AND push_bit sq 1 \<noteq> 0 then 0
     else GetKnightAttacks sq AND EnemyEmpty b c AND checkMask b)"

definition LegalBishopMoves :: "Color \<Rightarrow> Square \<Rightarrow> Board \<Rightarrow> Bitboard" where
  "LegalBishopMoves c sq b =
    (if doubleCheck b = 2 then 0
     else if pinMaskHV b AND push_bit sq 1 \<noteq> 0 then 0
     else if pinMaskD b AND push_bit sq 1 \<noteq> 0
       then GetBishopAttacks sq (allPieces b White OR allPieces b Black)
              AND EnemyEmpty b c AND checkMask b AND pinMaskD b
     else let allBB = allPieces b White OR allPieces b Black
          in GetBishopAttacks sq allBB AND EnemyEmpty b c AND checkMask b)"

definition LegalRookMoves :: "Color \<Rightarrow> Square \<Rightarrow> Board \<Rightarrow> Bitboard" where
  "LegalRookMoves c sq b =
    (if doubleCheck b = 2 then 0
     else if pinMaskD b AND push_bit sq 1 \<noteq> 0 then 0
     else if pinMaskHV b AND push_bit sq 1 \<noteq> 0
       then GetRookAttacks sq (allPieces b White OR allPieces b Black)
              AND EnemyEmpty b c AND checkMask b AND pinMaskHV b
     else let allBB = allPieces b White OR allPieces b Black
          in GetRookAttacks sq allBB AND EnemyEmpty b c AND checkMask b)"

definition LegalQueenMoves :: "Color \<Rightarrow> Square \<Rightarrow> Board \<Rightarrow> Bitboard" where
  "LegalQueenMoves c sq b =
    (if doubleCheck b = 2 then 0
     else LegalRookMoves c sq b OR LegalBishopMoves c sq b)"

text \<open>The body of the loop over the king's neighbouring squares, the king lifted off.\<close>

definition king_step :: "Board \<Rightarrow> Color \<Rightarrow> Square \<Rightarrow> Bitboard \<Rightarrow> Bitboard" where
  "king_step b c index legal_king =
    (if isSquareAttacked b index (opposite c) then legal_king OR 0
     else legal_king OR push_bit index 1)"

definition LegalKingMoves :: "Color \<Rightarrow> Square \<Rightarrow> Board \<Rightarrow> Bitboard \<times> Board" where
  "LegalKingMoves c sq b =
    (let king_moves = GetKingAttacks sq AND EnemyEmpty b c;
         k = King + 6 * color_index c;
         b1 = b\<lparr>PiecesBB := (PiecesBB b)[k := lookup (PiecesBB b) k AND NOT (push_bit sq 1)]\<rparr>;
         legal_king = fold (king_step b1 c) (squares king_moves) 0;
         b2 = b1\<lparr>PiecesBB := (PiecesBB b1)[k := lookup (PiecesBB b1) k OR push_bit sq 1]\<rparr>;
         inCheck = (ALL_SQUARES \<noteq> checkMask b2);
         allBB = allPieces b2 White OR allPieces b2 Black;
         castlingMoves = 0;
         castlingMoves =
           (if \<not> inCheck \<and> castlingRights b2 AND whiteKingSideCastling \<noteq> 0
               \<and> sideToMove b2 = White
               \<and> allBB AND push_bit SQ_F1 1 = 0 \<and> allBB AND push_bit SQ_G1 1 = 0
               \<and> push_bit SQ_H1 1 AND Rooks b2 White \<noteq> 0
               \<and> \<not> isSquareAttacked b2 SQ_F1 (opposite c)
               \<and> \<not> isSquareAttacked b2 SQ_G1 (opposite c)
            then castlingMoves OR push_bit SQ_G1 1 else castlingMoves);
         castlingMoves =
           (if \<not> inCheck \<and> castlingRights b2 AND whiteQueenSideCastling \<noteq> 0
               \<and> sideToMove b2 = White
               \<and> allBB AND push_bit SQ_D1 1 = 0 \<and> allBB AND push_bit SQ_C1 1 = 0
               \<and> allBB AND push_bit SQ_B1 1 = 0
               \<and> push_bit SQ_A1 1 AND Rooks b2 White \<noteq> 0
               \<and> \<not> isSquareAttacked b2 SQ_D1 (opposite c)
               \<and> \<not> isSquareAttacked b2 SQ_C1 (opposite c)
            then castlingMoves OR push_bit SQ_C1 1 else castlingMoves);
         castlingMoves =
           (if \<not> inCheck \<and> castlingRights b2 AND blackKingSideCastling \<noteq> 0
               \<and> sideToMove b2 = Black
               \<and> allBB AND push_bit SQ_F8 1 = 0 \<and> allBB AND push_bit SQ_G8 1 = 0
               \<and> push_bit SQ_H8 1 AND Rooks b2 Black \<noteq> 0
               \<and> \<not> isSquareAttacked b2 SQ_F8 (opposite c)
               \<and> \<not> isSquareAttacked b2 SQ_G8 (opposite c)
            then castlingMoves OR push_bit SQ_G8 1 else castlingMoves);
         castlingMoves =
           (if \<not> inCheck \<and> castlingRights b2 AND blackQueenSideCastling \<noteq> 0
               \<and> sideToMove b2 = Black
               \<and> allBB AND push_bit SQ_D8 1 = 0 \<and> allBB AND push_bit SQ_C8 1 = 0
               \<and> allBB AND push_bit SQ_B8 1 = 0
               \<and> push_bit SQ_A8 1 AND Rooks b2 Black \<noteq> 0
               \<and> \<not> isSquareAttacked b2 SQ_D8 (opposite Black)
               \<and> \<not> isSquareAttacked b2 SQ_C8 (opposite Black)
            then castlingMoves OR push_bit SQ_C8 1 else castlingMoves)
     in (legal_king OR castlingMoves, b2))"

subsection \<open>The move list\<close>

definition capture_flag :: "Board \<Rightarrow> Square \<Rightarrow> 32 word" where
  "capture_flag b target = (if push_bit target 1 AND Enemy b (sideToMove b) \<noteq> 0 then 1 else 0)"

definition add_pawn_move :: "Board \<Rightarrow> Square \<Rightarrow> Square \<Rightarrow> Moves \<Rightarrow> Moves" where
  "add_pawn_move b source target moveList =
    (let stm = sideToMove b; capture = capture_flag b target
     in if rank_of target = 7 \<or> rank_of target = 0 then
          Add (Move source target (makePiece Pawn stm) (makePiece Knight stm) capture 0 0 0)
           (Add (Move source target (makePiece Pawn stm) (makePiece Bishop stm) capture 0 0 0)
            (Add (Move source target (makePiece Pawn stm) (makePiece Rook stm) capture 0 0 0)
             (Add (Move source target (makePiece Pawn stm) (makePiece Queen stm) capture 0 0 0)
               moveList)))
        else if \<bar>int source - int target\<bar> = 16 then
          Add (Move source target (makePiece Pawn stm) None_piece capture 1 0 0) moveList
        else if target = enpassantSquare b then
          Add (Move source target (makePiece Pawn stm) None_piece 1 0 1 0) moveList
        else
          Add (Move source target (makePiece Pawn stm) None_piece capture 0 0 0) moveList)"

definition add_piece_move :: "Board \<Rightarrow> PieceType \<Rightarrow> Square \<Rightarrow> Square \<Rightarrow> Moves \<Rightarrow> Moves" where
  "add_piece_move b type source target moveList =
     Add (Move source target (makePiece type (sideToMove b)) None_piece
            (capture_flag b target) 0 0 0) moveList"

definition add_king_move :: "Board \<Rightarrow> Square \<Rightarrow> Square \<Rightarrow> Moves \<Rightarrow> Moves" where
  "add_king_move b source target moveList =
    (let stm = sideToMove b; capture = capture_flag b target
     in if target = SQ_G1 \<and> source = SQ_E1 then
          Add (Move source target (makePiece King stm) None_piece 0 0 0 1) moveList
        else if target = SQ_C1 \<and> source = SQ_E1 then
          Add (Move source target (makePiece King stm) None_piece 0 0 0 1) moveList
        else if target = SQ_G8 \<and> source = SQ_E8 then
          Add (Move source target (makePiece King stm) None_piece 0 0 0 1) moveList
        else if target = SQ_C8 \<and> source = SQ_E8 then
          Add (Move source target (makePiece King stm) None_piece 0 0 0 1) moveList
        else
          Add (Move source target (makePiece King stm) None_piece capture 0 0 0) moveList)"

text \<open>
  One pass of the pawn loop: the destinations of the pawn on \<open>source\<close>, then one or four
  moves per destination. The other pieces read the board only.
\<close>

definition pawn_step :: "Square \<Rightarrow> Moves \<times> Board \<Rightarrow> Moves \<times> Board" where
  "pawn_step source mb =
    (let r = LegalPawnMoves (sideToMove (snd mb)) source (snd mb)
     in (fold (add_pawn_move (snd r) source) (squares (fst r)) (fst mb), snd r))"

definition piece_step :: "Board \<Rightarrow> PieceType \<Rightarrow> (Color \<Rightarrow> Square \<Rightarrow> Board \<Rightarrow> Bitboard) \<Rightarrow>
    Square \<Rightarrow> Moves \<Rightarrow> Moves" where
  "piece_step b type legal source moveList =
     fold (add_piece_move b type source) (squares (legal (sideToMove b) source b)) moveList"

text \<open>The block guarded by \<^verbatim>\<open>doubleCheck < 2\<close>: pawns, knights, bishops, rooks, queens.\<close>

definition generate_non_king :: "Board \<Rightarrow> Moves \<times> Board" where
  "generate_non_king b0 =
    (let stm = sideToMove b0;
         pawn_mask = Pawns b0 stm;
         knight_mask = Knights b0 stm;
         bishop_mask = Bishops b0 stm;
         rook_mask = Rooks b0 stm;
         queen_mask = Queens b0 stm;
         mb = fold pawn_step (squares pawn_mask) ([], b0);
         b = snd mb;
         moveList = fold (piece_step b Knight LegalKnightMoves) (squares knight_mask) (fst mb);
         moveList = fold (piece_step b Bishop LegalBishopMoves) (squares bishop_mask) moveList;
         moveList = fold (piece_step b Rook LegalRookMoves) (squares rook_mask) moveList;
         moveList = fold (piece_step b Queen LegalQueenMoves) (squares queen_mask) moveList
     in (moveList, b))"

definition generate_king :: "Moves \<times> Board \<Rightarrow> Moves \<times> Board" where
  "generate_king mb =
    (let b = snd mb;
         king_mask = Kings b (sideToMove b);
         source = fst (poplsb king_mask);
         r = LegalKingMoves (sideToMove b) source b
     in (fold (add_king_move (snd r) source) (squares (fst r)) (fst mb), snd r))"

definition generateLegalMoves :: "Board \<Rightarrow> Moves \<times> Board" where
  "generateLegalMoves b0 =
    (let b = init (sideToMove b0) (KingSq b0 (sideToMove b0)) b0
     in generate_king (if doubleCheck b < 2 then generate_non_king b else ([], b)))"

subsection \<open>Make and unmake\<close>

text \<open>
  \<^verbatim>\<open>Square(move.target() + offset)\<close> converts an \<^verbatim>\<open>int\<close> to \<^verbatim>\<open>uint8_t\<close>, that is modulo 256.
\<close>

definition Square_of_int :: "int \<Rightarrow> Square" where
  "Square_of_int i = nat (i mod 256)"

definition snapshot :: "Board \<Rightarrow> State" where
  "snapshot b =
     \<lparr>PiecesCopyBB = PiecesBB b, boardCopy = board b, sideToMoveCopy = sideToMove b,
      enpassantCopy = enpassantSquare b, castlingRightsCopy = castlingRights b\<rparr>"

definition clear_rights :: "8 word \<Rightarrow> Board \<Rightarrow> Board" where
  "clear_rights r b = b\<lparr>castlingRights := castlingRights b AND NOT r\<rparr>"

text \<open>The castling block: a king move from its home square with the right still set.\<close>

definition make_castling :: "Move \<Rightarrow> Board \<Rightarrow> Board" where
  "make_castling m b =
    (if move_piece m = makePiece King (sideToMove b) then
       (if move_source m = SQ_E1 \<and> move_target m = SQ_G1
            \<and> castlingRights b AND whiteKingSideCastling \<noteq> 0 then
          placePiece (makePiece Rook White) SQ_F1
            (removePiece (makePiece Rook White) SQ_H1
              (clear_rights whiteQueenSideCastling (clear_rights whiteKingSideCastling b)))
        else if move_source m = SQ_E8 \<and> move_target m = SQ_G8
            \<and> castlingRights b AND blackKingSideCastling \<noteq> 0 then
          placePiece (makePiece Rook Black) SQ_F8
            (removePiece (makePiece Rook Black) SQ_H8
              (clear_rights blackQueenSideCastling (clear_rights blackKingSideCastling b)))
        else if move_source m = SQ_E1 \<and> move_target m = SQ_C1
            \<and> castlingRights b AND whiteQueenSideCastling \<noteq> 0 then
          placePiece (makePiece Rook White) SQ_D1
            (removePiece (makePiece Rook White) SQ_A1
              (clear_rights whiteKingSideCastling (clear_rights whiteQueenSideCastling b)))
        else if move_source m = SQ_E8 \<and> move_target m = SQ_C8
            \<and> castlingRights b AND blackQueenSideCastling \<noteq> 0 then
          placePiece (makePiece Rook Black) SQ_D8
            (removePiece (makePiece Rook Black) SQ_A8
              (clear_rights blackKingSideCastling (clear_rights blackQueenSideCastling b)))
        else b)
     else b)"

definition make_king_rights :: "Move \<Rightarrow> Board \<Rightarrow> Board" where
  "make_king_rights m b =
    (let b = (if move_piece m = makePiece King (sideToMove b) \<and> sideToMove b = White
              then clear_rights whiteQueenSideCastling (clear_rights whiteKingSideCastling b)
              else b)
     in if move_piece m = makePiece King (sideToMove b) \<and> sideToMove b = Black
        then clear_rights blackQueenSideCastling (clear_rights blackKingSideCastling b)
        else b)"

definition make_rook_rights :: "Move \<Rightarrow> Board \<Rightarrow> Board" where
  "make_rook_rights m b =
    (if move_piece m = makePiece Rook White then
       (if move_source m = SQ_A1 then clear_rights whiteQueenSideCastling b
        else if move_source m = SQ_H1 then clear_rights whiteKingSideCastling b
        else b)
     else if move_piece m = makePiece Rook Black then
       (if move_source m = SQ_A8 then clear_rights blackQueenSideCastling b
        else if move_source m = SQ_H8 then clear_rights blackKingSideCastling b
        else b)
     else b)"

text \<open>
  The block under the comment \<^verbatim>\<open>Rook capture loses castle rights\<close>. Its \<^verbatim>\<open>else if\<close> repeats
  the condition of the \<^verbatim>\<open>if\<close>, so the second branch is kept as the source has it.
\<close>

definition make_capture_rights :: "Move \<Rightarrow> Board \<Rightarrow> Board" where
  "make_capture_rights m b =
    (if move_capture m \<and> push_bit (move_target m) 1 AND Rooks b (opposite (sideToMove b)) \<noteq> 0 then
       (if move_target m = SQ_A1 then clear_rights whiteQueenSideCastling b
        else if move_target m = SQ_H1 then clear_rights whiteKingSideCastling b
        else b)
     else if move_capture m \<and> push_bit (move_target m) 1 AND Rooks b (opposite (sideToMove b)) \<noteq> 0 then
       (if move_target m = SQ_A8 then clear_rights blackQueenSideCastling b
        else if move_target m = SQ_H8 then clear_rights blackKingSideCastling b
        else b)
     else b)"

definition make_enpassant_capture :: "Move \<Rightarrow> Board \<Rightarrow> Board" where
  "make_enpassant_capture m b =
    (if move_target m = enpassantSquare b \<and> move_enpassant m then
       removePiece (makePiece Pawn (opposite (sideToMove b)))
         (Square_of_int (int (move_target m) + ep_offset (sideToMove b))) b
     else b)"

definition make_enpassant_square :: "Move \<Rightarrow> Board \<Rightarrow> Board" where
  "make_enpassant_square m b0 =
    (let b = b0\<lparr>enpassantSquare := NO_SQ\<rparr>
     in if move_piece m = makePiece Pawn (sideToMove b)
           \<and> \<bar>int (move_source m) - int (move_target m)\<bar> = 16 then
          let sq = Square_of_int (int (move_target m) + ep_offset (sideToMove b));
              epMask = GetPawnAttacks sq (sideToMove b)
          in if epMask AND Pawns b (opposite (sideToMove b)) \<noteq> 0
             then b\<lparr>enpassantSquare := sq\<rparr> else b
        else b)"

definition make_pieces :: "Move \<Rightarrow> Board \<Rightarrow> Board" where
  "make_pieces m b0 =
    (let b = (if move_capture m then removePiece (getPiece b0 (move_target m)) (move_target m) b0
              else b0);
         b = removePiece (move_piece m) (move_source m) b;
         b = placePiece (move_piece m) (move_target m) b
     in if move_promoted m \<noteq> None_piece
        then placePiece (move_promoted m) (move_target m)
               (removePiece (move_piece m) (move_target m) b)
        else b)"

definition makemove :: "Move \<Rightarrow> Board \<Rightarrow> Board" where
  "makemove m b0 =
    (let b = b0\<lparr>storeInfo := snapshot b0 # storeInfo b0\<rparr>;
         b = make_castling m b;
         b = make_king_rights m b;
         b = make_rook_rights m b;
         b = make_capture_rights m b;
         b = make_enpassant_capture m b;
         b = make_enpassant_square m b;
         b = make_pieces m b
     in b\<lparr>sideToMove := opposite (sideToMove b)\<rparr>)"

text \<open>\<^verbatim>\<open>unmakemove\<close> reads the top of the stack; on an empty stack that is undefined.\<close>

definition unmakemove :: "Board \<Rightarrow> Board option" where
  "unmakemove b =
    (case storeInfo b of
       [] \<Rightarrow> None
     | safeState # rest \<Rightarrow>
         Some (b\<lparr>PiecesBB := PiecesCopyBB safeState, board := boardCopy safeState,
                 sideToMove := sideToMoveCopy safeState,
                 enpassantSquare := enpassantCopy safeState,
                 castlingRights := castlingRightsCopy safeState,
                 storeInfo := rest\<rparr>))"

section \<open>Hashing, FEN parsing and game-end predicates (\<^verbatim>\<open>chess.cpp\<close>)\<close>

text \<open>
  \<^verbatim>\<open>chess.cpp\<close> reads three tables whose initialisers are not among the sources:
  \<^verbatim>\<open>RANDOM_ARRAY\<close> (781 keys), \<^verbatim>\<open>hash_piece\<close> and \<^verbatim>\<open>castlingKey\<close>. They are parameters of
  the model. It also calls the colour-templated forms \<^verbatim>\<open>allPieces<c>()\<close>, \<^verbatim>\<open>Pawns<c>()\<close>,
  \<^verbatim>\<open>GetPawnAttacks<c>(sq)\<close> and \<^verbatim>\<open>generateLegalMoves<c>()\<close>; the model uses the functions of
  \<^verbatim>\<open>chess.hpp\<close> that take the colour as an argument.
\<close>

record Zobrist =
  RANDOM_ARRAY :: "nat \<Rightarrow> 64 word"
  hash_piece :: "nat \<Rightarrow> nat"
  castlingKey :: "nat \<Rightarrow> 64 word"

definition piece_at :: "Board \<Rightarrow> Square \<Rightarrow> Piece" where
  "piece_at b sq = lookup (board b) sq"

definition updateKeyPiece :: "Zobrist \<Rightarrow> Piece \<Rightarrow> Square \<Rightarrow> Board \<Rightarrow> Board" where
  "updateKeyPiece z piece sq b =
     b\<lparr>hashKey := hashKey b XOR RANDOM_ARRAY z (64 * hash_piece z piece + sq)\<rparr>"

definition updateKeyEnPassant :: "Zobrist \<Rightarrow> Square \<Rightarrow> Board \<Rightarrow> Board" where
  "updateKeyEnPassant z sq b = b\<lparr>hashKey := hashKey b XOR RANDOM_ARRAY z (772 + file_of sq)\<rparr>"

definition updateKeyCastling :: "Zobrist \<Rightarrow> Board \<Rightarrow> Board" where
  "updateKeyCastling z b = b\<lparr>hashKey := hashKey b XOR castlingKey z (unat (castlingRights b))\<rparr>"

definition updateKeySideToMove :: "Zobrist \<Rightarrow> Board \<Rightarrow> Board" where
  "updateKeySideToMove z b = b\<lparr>hashKey := hashKey b XOR RANDOM_ARRAY z 780\<rparr>"

definition hash_piece_step :: "Zobrist \<Rightarrow> Square \<Rightarrow> Board \<Rightarrow> Board" where
  "hash_piece_step z sq b = updateKeyPiece z (piece_at b sq) sq b"

definition hash_enpassant :: "Zobrist \<Rightarrow> Board \<Rightarrow> Board" where
  "hash_enpassant z b =
    (if enpassantSquare b \<noteq> NO_SQ then
       let epMask = (if rank_of (enpassantSquare b) = 2
                     then GetPawnAttacks (enpassantSquare b) White
                     else GetPawnAttacks (enpassantSquare b) Black);
           pawns = (if rank_of (enpassantSquare b) = 2 then Pawns b Black else Pawns b White)
       in if epMask AND pawns \<noteq> 0 then updateKeyEnPassant z (enpassantSquare b) b else b
     else b)"

definition hash :: "Zobrist \<Rightarrow> Board \<Rightarrow> Board" where
  "hash z b0 =
    (let b = b0\<lparr>hashKey := 0\<rparr>;
         wPieces = allPieces b White;
         bPieces = allPieces b Black;
         b = fold (hash_piece_step z) (squares wPieces) b;
         b = fold (hash_piece_step z) (squares bPieces) b;
         b = hash_enpassant z b;
         b = (if sideToMove b = White then updateKeySideToMove z b else b)
     in updateKeyCastling z b)"

subsection \<open>FEN parser\<close>

text \<open>
  The tokenizer pushes a token only when it meets a space, so the characters after the
  last space are never pushed. \<open>tokenize\<close> returns the pushed tokens.
\<close>

definition tokenize_step :: "char \<Rightarrow> string list \<times> string \<Rightarrow> string list \<times> string" where
  "tokenize_step ch st =
    (if ch = CHR '' '' then (if snd st \<noteq> [] then (fst st @ [snd st], []) else st)
     else (fst st, snd st @ [ch]))"

definition tokenize :: "string \<Rightarrow> string list" where
  "tokenize FEN = fst (fold tokenize_step FEN ([], []))"

fun charToPiece :: "char \<Rightarrow> Piece option" where
  "charToPiece ch =
    (if ch = CHR ''P'' then Some WhitePawn else if ch = CHR ''N'' then Some WhiteKnight
     else if ch = CHR ''B'' then Some WhiteBishop else if ch = CHR ''R'' then Some WhiteRook
     else if ch = CHR ''Q'' then Some WhiteQueen else if ch = CHR ''K'' then Some WhiteKing
     else if ch = CHR ''p'' then Some BlackPawn else if ch = CHR ''n'' then Some BlackKnight
     else if ch = CHR ''b'' then Some BlackBishop else if ch = CHR ''r'' then Some BlackRook
     else if ch = CHR ''q'' then Some BlackQueen else if ch = CHR ''k'' then Some BlackKing
     else None)"

definition char_code :: "char \<Rightarrow> int" where
  "char_code ch = int (of_char ch)"

definition isdigit :: "char \<Rightarrow> bool" where
  "isdigit ch = (48 \<le> char_code ch \<and> char_code ch \<le> 57)"

text \<open>
  \<^verbatim>\<open>s[i]\<close> on a \<^verbatim>\<open>std::string\<close>: the terminating zero at \<^verbatim>\<open>i = size()\<close>, undefined beyond
  (the model answers zero there too).
\<close>

definition char_at :: "string \<Rightarrow> nat \<Rightarrow> int" where
  "char_at str i = (if i < length str then char_code (str ! i) else 0)"

text \<open>The placement loop: the state is the running square and the board.\<close>

definition place_step :: "char \<Rightarrow> Square \<times> Board \<Rightarrow> Square \<times> Board" where
  "place_step ch st =
    (case charToPiece ch of
       Some piece \<Rightarrow> (Square_of_int (int (fst st) + 1), placePiece piece (fst st) (snd st))
     | None \<Rightarrow>
         if ch = CHR ''/'' then (Square_of_int (int (fst st) - 16), snd st)
         else if isdigit ch then (Square_of_int (int (fst st) + (char_code ch - 48)), snd st)
         else st)"

definition castling_step :: "char \<Rightarrow> Board \<Rightarrow> Board" where
  "castling_step ch b =
    (if ch = CHR ''K'' then b\<lparr>castlingRights := castlingRights b OR whiteKingSideCastling\<rparr>
     else if ch = CHR ''Q'' then b\<lparr>castlingRights := castlingRights b OR whiteQueenSideCastling\<rparr>
     else if ch = CHR ''k'' then b\<lparr>castlingRights := castlingRights b OR blackKingSideCastling\<rparr>
     else if ch = CHR ''q'' then b\<lparr>castlingRights := castlingRights b OR blackQueenSideCastling\<rparr>
     else b)"

definition parse_enpassant :: "string \<Rightarrow> Board \<Rightarrow> Board" where
  "parse_enpassant ep b =
    (if ep \<noteq> ''-'' then
       let rank = char_at ep 1 - 49;
           file = char_at ep 0 - 97
       in b\<lparr>enpassantSquare := Square_of_int (rank * 8 + file)\<rparr>
     else b)"

definition reset_board :: "Board \<Rightarrow> Board" where
  "reset_board b =
     b\<lparr>PiecesBB := replicate 12 0, board := replicate 64 None_piece, storeInfo := [],
       enpassantSquare := NO_SQ, castlingRights := 0, halfMoveClock := 0,
       fullMoveCounter := 1\<rparr>"

definition parseFEN :: "Zobrist \<Rightarrow> string \<Rightarrow> Board \<Rightarrow> Board" where
  "parseFEN z FEN b0 =
    (let b = reset_board b0;
         tokens = tokenize FEN;
         pieces = (if length tokens \<ge> 4 then tokens ! 0 else []);
         color = (if length tokens \<ge> 4 then tokens ! 1 else []);
         castling = (if length tokens \<ge> 4 then tokens ! 2 else []);
         ep = (if length tokens \<ge> 4 then tokens ! 3 else []);
         b = snd (fold place_step pieces (56, b));
         b = b\<lparr>sideToMove := (if color = ''w'' then White else Black)\<rparr>;
         b = parse_enpassant ep b;
         b = fold castling_step castling b
     in hash z b)"

text \<open>
  A freshly constructed \<^verbatim>\<open>Board\<close> before its constructor parses the FEN. \<^verbatim>\<open>checkMask\<close> and
  \<^verbatim>\<open>doubleCheck\<close> have default member initialisers; the other members are unset in C++
  and are written before they are read.
\<close>

definition blank_Board :: Board where
  "blank_Board =
     \<lparr>PiecesBB = replicate 12 0, board = replicate 64 None_piece, sideToMove = White,
      enpassantSquare = NO_SQ, castlingRights = 0, storeInfo = [],
      checkMask = ALL_SQUARES, pinMaskHV = 0, pinMaskD = 0, doubleCheck = 0,
      halfMoveClock = 0, fullMoveCounter = 1, hashKey = 0\<rparr>"

subsection \<open>Checkmate and stalemate\<close>




section \<open>What the specification asks for\<close>

text \<open>
  The definitions of this section do not come from the code. They state, square by
  square, what the specification means by one piece attacking a square under the current
  occupancy, so that the bitboard routines can be compared with it.
\<close>

definition sq_file :: "Square \<Rightarrow> int" where
  "sq_file sq = int (sq mod 8)"

definition sq_rank :: "Square \<Rightarrow> int" where
  "sq_rank sq = int (sq div 8)"

definition piece_on :: "Board \<Rightarrow> Piece \<Rightarrow> Square \<Rightarrow> bool" where
  "piece_on b p sq = bit (lookup (PiecesBB b) p) sq"

definition occupied :: "Board \<Rightarrow> Square \<Rightarrow> bool" where
  "occupied b sq = bit (allPieces b White OR allPieces b Black) sq"

text \<open>The squares strictly between two squares of one rank, file or diagonal.\<close>

definition between :: "Square \<Rightarrow> Square \<Rightarrow> Square list" where
  "between a q =
    (let df = sq_file q - sq_file a; dr = sq_rank q - sq_rank a
     in map (\<lambda>k. nat (int a + int k * (sgn df + 8 * sgn dr))) [1..<nat (max \<bar>df\<bar> \<bar>dr\<bar>)])"

definition line_clear :: "Board \<Rightarrow> Square \<Rightarrow> Square \<Rightarrow> bool" where
  "line_clear b a q = list_all (\<lambda>s. \<not> occupied b s) (between a q)"

definition diagonal_line :: "Square \<Rightarrow> Square \<Rightarrow> bool" where
  "diagonal_line a q = (a \<noteq> q \<and> \<bar>sq_file q - sq_file a\<bar> = \<bar>sq_rank q - sq_rank a\<bar>)"

definition straight_line :: "Square \<Rightarrow> Square \<Rightarrow> bool" where
  "straight_line a q = (a \<noteq> q \<and> (sq_file q = sq_file a \<or> sq_rank q = sq_rank a))"

text \<open>\<open>spec_attacks b c a q\<close>: a piece of colour \<open>c\<close> standing on \<open>a\<close> attacks \<open>q\<close>.\<close>

definition spec_attacks :: "Board \<Rightarrow> Color \<Rightarrow> Square \<Rightarrow> Square \<Rightarrow> bool" where
  "spec_attacks b c a q =
    (let df = sq_file q - sq_file a; dr = sq_rank q - sq_rank a
     in (piece_on b (makePiece Pawn c) a \<and> \<bar>df\<bar> = 1 \<and> dr = (if c = White then 1 else - 1))
      \<or> (piece_on b (makePiece Knight c) a
           \<and> ((\<bar>df\<bar> = 1 \<and> \<bar>dr\<bar> = 2) \<or> (\<bar>df\<bar> = 2 \<and> \<bar>dr\<bar> = 1)))
      \<or> (piece_on b (makePiece Bishop c) a \<and> diagonal_line a q \<and> line_clear b a q)
      \<or> (piece_on b (makePiece Rook c) a \<and> straight_line a q \<and> line_clear b a q)
      \<or> (piece_on b (makePiece Queen c) a \<and> (diagonal_line a q \<or> straight_line a q)
           \<and> line_clear b a q)
      \<or> (piece_on b (makePiece King c) a \<and> max \<bar>df\<bar> \<bar>dr\<bar> = 1))"

definition spec_attackers :: "Board \<Rightarrow> Color \<Rightarrow> Square \<Rightarrow> Square list" where
  "spec_attackers b c q = filter (\<lambda>a. spec_attacks b c a q) all_squares"

definition spec_isSquareAttacked :: "Board \<Rightarrow> Square \<Rightarrow> Color \<Rightarrow> bool" where
  "spec_isSquareAttacked b q c = (spec_attackers b c q \<noteq> [])"

text \<open>The pieces of the other side that give check to the king of \<open>c\<close>.\<close>

definition spec_checkers :: "Board \<Rightarrow> Color \<Rightarrow> Square list" where
  "spec_checkers b c = spec_attackers b (opposite c) (KingSq b c)"

section \<open>Positions\<close>

text \<open>
  The part of the position invariants of the specification that the generator relies on
  when it writes to the board and takes the writes back: the arrays have their declared
  sizes, the side to move has a king, and an en-passant square is an empty square with a
  pawn of the side that just moved right behind it.
\<close>

definition ep_consistent :: "Board \<Rightarrow> bool" where
  "ep_consistent b =
    (let ep = enpassantSquare b; stm = sideToMove b
     in ep = NO_SQ
        \<or> (ep < 64 \<and> lookup (board b) ep = None_piece
            \<and> Pawns b stm AND push_bit ep 1 = 0
            \<and> Pawns b (opposite stm) AND shl1 (int ep + ep_offset stm) \<noteq> 0))"

definition position_ok :: "Board \<Rightarrow> bool" where
  "position_ok b =
    (length (PiecesBB b) = 12 \<and> length (board b) = 64
     \<and> Kings b (sideToMove b) \<noteq> 0 \<and> ep_consistent b)"

text \<open>
  Stand-in Zobrist tables for the positions evaluated below: key \<open>i + 1\<close> at index \<open>i\<close>,
  pieces hashed under their own index, castling key equal to the rights mask.
\<close>

definition sample_keys :: Zobrist where
  "sample_keys =
     \<lparr>RANDOM_ARRAY = (\<lambda>i. of_nat i + 1), hash_piece = (\<lambda>p. p), castlingKey = (\<lambda>r. of_nat r)\<rparr>"

definition from_FEN :: "string \<Rightarrow> Board" where
  "from_FEN FEN = parseFEN sample_keys FEN blank_Board"

section \<open>Frames\<close>

text \<open>
  \<open>untouched b b'\<close>: the members that neither \<^verbatim>\<open>makemove\<close> nor \<^verbatim>\<open>unmakemove\<close> assigns
  have the same values in \<open>b\<close> and \<open>b'\<close>.
\<close>

definition untouched :: "Board \<Rightarrow> Board \<Rightarrow> bool" where
  "untouched b b' =
    (storeInfo b' = storeInfo b \<and> checkMask b' = checkMask b \<and> pinMaskHV b' = pinMaskHV b
     \<and> pinMaskD b' = pinMaskD b \<and> doubleCheck b' = doubleCheck b
     \<and> halfMoveClock b' = halfMoveClock b \<and> fullMoveCounter b' = fullMoveCounter b
     \<and> hashKey b' = hashKey b)"

text \<open>\<open>same_position b b'\<close>: the position proper is the same in \<open>b\<close> and \<open>b'\<close>.\<close>

definition same_position :: "Board \<Rightarrow> Board \<Rightarrow> bool" where
  "same_position b b' =
    (PiecesBB b' = PiecesBB b \<and> board b' = board b \<and> sideToMove b' = sideToMove b
     \<and> enpassantSquare b' = enpassantSquare b \<and> castlingRights b' = castlingRights b)"

text \<open>\<open>rights_le b b'\<close>: every castling right of \<open>b'\<close> is a right of \<open>b\<close>.\<close>

definition rights_le :: "Board \<Rightarrow> Board \<Rightarrow> bool" where
  "rights_le b b' = (castlingRights b' AND castlingRights b = castlingRights b')"

section \<open>Example positions\<close>

text \<open>
  The positions at which the theorems below run the code. Each is the board that
  \<open>from_FEN\<close> builds from the FEN string named in its lemma, written out so that the
  evaluation starts from a literal.
\<close>

text \<open>White king e1, black king e3, White to move.\<close>

definition kings_position :: Board where
  "kings_position =
     \<lparr>PiecesBB = [0, 0, 0, 0, 0, 0x10, 0, 0, 0, 0, 0, 0x100000],
      board = (replicate 64 None_piece)[4 := WhiteKing, 20 := BlackKing],
      sideToMove = White, enpassantSquare = NO_SQ, castlingRights = 0, storeInfo = [],
      checkMask = ALL_SQUARES, pinMaskHV = 0, pinMaskD = 0, doubleCheck = 0,
      halfMoveClock = 0, fullMoveCounter = 1, hashKey = 157\<rparr>"

text \<open>White bishop a1 and king e1, black king e8 and rook h8 with the right to castle short.\<close>

definition corner_rook_position :: Board where
  "corner_rook_position =
     \<lparr>PiecesBB = [0, 0, 0x1, 0, 0, 0x10, 0, 0, 0, 0x8000000000000000, 0, 0x1000000000000000],
      board = (replicate 64 None_piece)
                [0 := WhiteBishop, 4 := WhiteKing, 60 := BlackKing, 63 := BlackRook],
      sideToMove = White, enpassantSquare = NO_SQ, castlingRights = 4, storeInfo = [],
      checkMask = ALL_SQUARES, pinMaskHV = 0, pinMaskD = 0, doubleCheck = 0,
      halfMoveClock = 0, fullMoveCounter = 1, hashKey = 688\<rparr>"

definition bishop_takes_h8 :: Move where
  "bishop_takes_h8 = Move SQ_A1 SQ_H8 WhiteBishop None_piece 1 0 0 0"

text \<open>
  White king c1, rook e1, pawn e7; black king e8, knights d8 and g8; White to move. The
  pawn takes on d8 and promotes to a queen; Black can then answer with the knight from g8
  to e7.
\<close>

definition before_promotion_position :: Board where
  "before_promotion_position =
     \<lparr>PiecesBB = [0x10000000000000, 0, 0, 0x10, 0, 0x4, 0, 0x4800000000000000, 0, 0, 0,
                  0x1000000000000000],
      board = (replicate 64 None_piece)
                [2 := WhiteKing, 4 := WhiteRook, 52 := WhitePawn, 59 := BlackKnight,
                 60 := BlackKing, 62 := BlackKnight],
      sideToMove = White, enpassantSquare = NO_SQ, castlingRights = 0, storeInfo = [],
      checkMask = ALL_SQUARES, pinMaskHV = 0, pinMaskD = 0, doubleCheck = 0,
      halfMoveClock = 0, fullMoveCounter = 1, hashKey = 64\<rparr>"

definition promotion_move :: Move where
  "promotion_move = Move 52 59 WhitePawn WhiteQueen 1 0 0 0"

definition after_promotion :: Board where
  "after_promotion =
     makemove promotion_move
       (snd (generateLegalMoves (from_FEN ''3nk1n1/4P3/8/8/8/8/8/2K1R3 w - - 0 1'')))"

definition after_promotion_position :: Board where
  "after_promotion_position =
     \<lparr>PiecesBB = [0, 0, 0, 0x10, 0x800000000000000, 0x4, 0, 0x4000000000000000, 0, 0, 0,
                  0x1000000000000000],
      board = (replicate 64 None_piece)
                [2 := WhiteKing, 4 := WhiteRook, 59 := WhiteQueen, 60 := BlackKing,
                 62 := BlackKnight],
      sideToMove = Black, enpassantSquare = NO_SQ, castlingRights = 0,
      storeInfo = [snapshot before_promotion_position],
      checkMask = ALL_SQUARES, pinMaskHV = 0, pinMaskD = 0, doubleCheck = 0,
      halfMoveClock = 0, fullMoveCounter = 1, hashKey = 64\<rparr>"

definition knight_block :: Move where
  "knight_block = Move 62 52 BlackKnight None_piece 0 0 0 0"

definition after_block :: Board where
  "after_block = makemove knight_block (snd (generateLegalMoves after_promotion))"

text \<open>
  White king b2 and pawn e5, black king a8, bishop h8 and pawn f5, which has just moved
  two squares: the en-passant square is f6, on the diagonal from b2 to h8.
\<close>

definition pinned_ep_position :: Board where
  "pinned_ep_position =
     \<lparr>PiecesBB = [0x1000000000, 0, 0, 0, 0, 0x200, 0x2000000000, 0, 0x8000000000000000, 0, 0,
                  0x100000000000000],
      board = (replicate 64 None_piece)
                [9 := WhiteKing, 36 := WhitePawn, 37 := BlackPawn, 56 := BlackKing,
                 63 := BlackBishop],
      sideToMove = White, enpassantSquare = 45, castlingRights = 0, storeInfo = [],
      checkMask = ALL_SQUARES, pinMaskHV = 0, pinMaskD = 0, doubleCheck = 0,
      halfMoveClock = 0, fullMoveCounter = 1, hashKey = 119\<rparr>"

text \<open>White king a1 and pawn e4, black king h1 and pawn d4, en-passant square e3, Black to move.\<close>

definition ep_position :: Board where
  "ep_position =
     \<lparr>PiecesBB = [0x10000000, 0, 0, 0, 0, 0x1, 0x8000000, 0, 0, 0, 0, 0x80],
      board = (replicate 64 None_piece)
                [0 := WhiteKing, 7 := BlackKing, 27 := BlackPawn, 28 := WhitePawn],
      sideToMove = Black, enpassantSquare = 20, castlingRights = 0, storeInfo = [],
      checkMask = ALL_SQUARES, pinMaskHV = 0, pinMaskD = 0, doubleCheck = 0,
      halfMoveClock = 0, fullMoveCounter = 1, hashKey = 257\<rparr>"

text \<open>
  White king a1 and pawn e5, black king h1, and an en-passant square d6 with no black pawn
  on d5: a FEN the parser accepts although no game reaches it.
\<close>

definition phantom_position :: Board where
  "phantom_position =
     \<lparr>PiecesBB = [0x1000000000, 0, 0, 0, 0, 0x1, 0, 0, 0, 0, 0, 0x80],
      board = (replicate 64 None_piece)[0 := WhiteKing, 7 := BlackKing, 36 := WhitePawn],
      sideToMove = White, enpassantSquare = 43, castlingRights = 0, storeInfo = [],
      checkMask = ALL_SQUARES, pinMaskHV = 0, pinMaskD = 0, doubleCheck = 0,
      halfMoveClock = 0, fullMoveCounter = 1, hashKey = 937\<rparr>"

section \<open>Evaluating the code on a position\<close>

text \<open>
  The lemmas of this section are the rewrite rules with which the simplifier runs the
  model on a literal board: the definitions, grouped, and congruence rules that make it
  evaluate the bound value of a \<open>let\<close> and the scrutinee of a \<open>case\<close> before the body.
\<close>

lemma all_squares_eq: "all_squares =
    [0, 1, 2, 3, 4, 5, 6, 7]
    @ [8, 9, 10, 11, 12, 13, 14, 15]
    @ [16, 17, 18, 19, 20, 21, 22, 23]
    @ [24, 25, 26, 27, 28, 29, 30, 31]
    @ [32, 33, 34, 35, 36, 37, 38, 39]
    @ [40, 41, 42, 43, 44, 45, 46, 47]
    @ [48, 49, 50, 51, 52, 53, 54, 55]
    @ [56, 57, 58, 59, 60, 61, 62, 63]"
  unfolding all_squares_def by (simp add: upt_conv_Cons)

lemmas tables = SQUARE_BB_def MASK_FILE_def MASK_RANK_def MASK_DIAGONAL_def
  MASK_ANTI_DIAGONAL_def KNIGHT_ATTACKS_TABLE_def KING_ATTACKS_TABLE_def
  PAWN_ATTACKS_TABLE_White_def PAWN_ATTACKS_TABLE_Black_def

lemmas prims = lookup_def shl1_def bsf_def all_squares_eq reverse_def popCount_def poplsb_def
  squares.simps rank_of_def file_of_def diagonal_of_def anti_diagonal_of_def makePiece_def
  squareDistance_def hyp_quint_def GetPawnPush_def GetPawnAttacks_def GetKnightAttacks_def
  GetBishopAttacks_def GetRookAttacks_def GetQueenAttacks_def GetKingAttacks_def

lemmas bdefs = placePiece_def removePiece_def PieceBB_def Pawns_def Knights_def Bishops_def
  Rooks_def Queens_def Kings_def allPieces_def Enemy_def EnemyEmpty_def KingSq_def
  getPiece_def isSquareAttacked_def ALL_SQUARES_def

lemmas adefs = ep_offset_def ep_test_setup_def ep_test_undo_def doCheckmask_def pin_step_def
  create_pins_def init_def LegalPawnMoves_def LegalKnightMoves_def LegalBishopMoves_def
  LegalRookMoves_def LegalQueenMoves_def king_step_def LegalKingMoves_def

lemmas gdefs = Move_def Add_def capture_flag_def add_pawn_move_def add_piece_move_def
  add_king_move_def pawn_step_def piece_step_def generate_non_king_def generate_king_def
  generateLegalMoves_def

lemmas mdefs = move_source_def move_target_def move_piece_def move_promoted_def
  move_capture_def move_doublePush_def move_enpassant_def move_castling_def
  Square_of_int_def clear_rights_def make_castling_def make_king_rights_def
  make_rook_rights_def make_capture_rights_def make_enpassant_capture_def
  make_enpassant_square_def make_pieces_def makemove_def

lemmas sdefs = sq_file_def sq_rank_def piece_on_def occupied_def between_def line_clear_def
  diagonal_line_def straight_line_def spec_attacks_def spec_attackers_def
  spec_isSquareAttacked_def spec_checkers_def upt_conv_Cons

lemmas evalcong = let_weak_cong prod.case_cong_weak option.case_cong_weak
  list.case_cong_weak Color.case_cong_weak

lemma kings_FEN: "from_FEN ''8/8/8/8/8/4k3/8/4K3 w - - 0 1'' = kings_position"
  by code_simp

lemma corner_rook_FEN: "from_FEN ''4k2r/8/8/8/8/8/8/B3K3 w k - 0 1'' = corner_rook_position"
  by code_simp

lemma before_promotion_FEN:
  "from_FEN ''3nk1n1/4P3/8/8/8/8/8/2K1R3 w - - 0 1'' = before_promotion_position"
  by code_simp

lemma pinned_ep_FEN: "from_FEN ''k6b/8/8/4Pp2/8/8/1K6/8 w - f6 0 1'' = pinned_ep_position"
  by code_simp

lemma ep_position_FEN: "from_FEN ''8/8/8/8/3pP3/8/8/K6k b - e3 0 1'' = ep_position"
  by code_simp

lemma phantom_FEN: "from_FEN ''8/8/8/4P3/8/8/8/K6k w - d6 0 1'' = phantom_position"
  by code_simp

section \<open>Make followed by unmake\<close>

lemma untouched_refl: "untouched b b"
  by (simp add: untouched_def)

lemma untouched_trans: "untouched a b \<Longrightarrow> untouched b c \<Longrightarrow> untouched a c"
  by (simp add: untouched_def)

lemma untouched_placePiece: "untouched b (placePiece p sq b)"
  by (simp add: untouched_def placePiece_def)

lemma untouched_removePiece: "untouched b (removePiece p sq b)"
  by (simp add: untouched_def removePiece_def)

lemma untouched_clear_rights: "untouched b (clear_rights r b)"
  by (simp add: untouched_def clear_rights_def)

lemma untouched_castle:
  "untouched b (placePiece p sq (removePiece p' sq' (clear_rights r (clear_rights r' b))))"
  by (simp add: untouched_def placePiece_def removePiece_def clear_rights_def)

lemma untouched_make_castling: "untouched b (make_castling m b)"
  unfolding make_castling_def by (simp add: untouched_castle untouched_refl)

lemma untouched_make_king_rights: "untouched b (make_king_rights m b)"
  by (simp add: make_king_rights_def untouched_def clear_rights_def Let_def)

lemma untouched_make_rook_rights: "untouched b (make_rook_rights m b)"
  by (simp add: make_rook_rights_def untouched_clear_rights untouched_refl)

lemma untouched_make_capture_rights: "untouched b (make_capture_rights m b)"
  by (simp add: make_capture_rights_def untouched_clear_rights untouched_refl)

lemma untouched_make_enpassant_capture: "untouched b (make_enpassant_capture m b)"
  by (simp add: make_enpassant_capture_def untouched_removePiece untouched_refl)

lemma untouched_make_enpassant_square: "untouched b (make_enpassant_square m b)"
  by (simp add: make_enpassant_square_def untouched_def Let_def)

lemma untouched_make_pieces: "untouched b (make_pieces m b)"
  by (simp add: make_pieces_def untouched_def placePiece_def removePiece_def Let_def)

lemma untouched_makemove:
  "untouched (b\<lparr>storeInfo := snapshot b # storeInfo b\<rparr>) (makemove m b)"
proof -
  let ?b0 = "b\<lparr>storeInfo := snapshot b # storeInfo b\<rparr>"
  let ?b1 = "make_castling m ?b0"
  let ?b2 = "make_king_rights m ?b1"
  let ?b3 = "make_rook_rights m ?b2"
  let ?b4 = "make_capture_rights m ?b3"
  let ?b5 = "make_enpassant_capture m ?b4"
  let ?b6 = "make_enpassant_square m ?b5"
  let ?b7 = "make_pieces m ?b6"
  have 1: "untouched ?b0 ?b1" by (rule untouched_make_castling)
  have 2: "untouched ?b0 ?b2" by (rule untouched_trans [OF 1 untouched_make_king_rights])
  have 3: "untouched ?b0 ?b3" by (rule untouched_trans [OF 2 untouched_make_rook_rights])
  have 4: "untouched ?b0 ?b4" by (rule untouched_trans [OF 3 untouched_make_capture_rights])
  have 5: "untouched ?b0 ?b5" by (rule untouched_trans [OF 4 untouched_make_enpassant_capture])
  have 6: "untouched ?b0 ?b6" by (rule untouched_trans [OF 5 untouched_make_enpassant_square])
  have "untouched ?b0 ?b7" by (rule untouched_trans [OF 6 untouched_make_pieces])
  moreover have "makemove m b = ?b7\<lparr>sideToMove := opposite (sideToMove ?b7)\<rparr>"
    by (simp add: makemove_def Let_def)
  ultimately show ?thesis by (simp add: untouched_def)
qed

text \<open>
  Claim C3. For every position and every move (so in particular every legal move),
  \<^verbatim>\<open>makemove\<close> followed by \<^verbatim>\<open>unmakemove\<close> gives back the board it started from: the
  twelve bitboards, the mailbox, the side to move, the en-passant square and the castling
  rights are copied back from the snapshot, the snapshot is popped, and the halfmove
  clock and the hash key are written by neither function, so they too have their values
  from before the move.
\<close>

theorem makemove_unmakemove: "unmakemove (makemove m b) = Some b"
proof -
  have u: "untouched (b\<lparr>storeInfo := snapshot b # storeInfo b\<rparr>) (makemove m b)"
    by (rule untouched_makemove)
  then have st: "storeInfo (makemove m b) = snapshot b # storeInfo b"
    by (simp add: untouched_def)
  show ?thesis
    using u by (simp add: unmakemove_def st snapshot_def untouched_def)
qed

section \<open>Castling rights in make\<close>

lemma rights_le_refl: "rights_le b b"
  by (simp add: rights_le_def)

lemma rights_le_trans: "rights_le a b \<Longrightarrow> rights_le b c \<Longrightarrow> rights_le a c"
  unfolding rights_le_def by (metis and.assoc)

lemma rights_le_placePiece: "rights_le b (placePiece p sq b)"
  by (simp add: rights_le_def placePiece_def)

lemma rights_le_removePiece: "rights_le b (removePiece p sq b)"
  by (simp add: rights_le_def removePiece_def)

lemma rights_le_clear_rights: "rights_le b (clear_rights r b)"
  by (simp add: rights_le_def clear_rights_def ac_simps)

lemma rights_le_castle:
  "rights_le b (placePiece p sq (removePiece p' sq' (clear_rights r (clear_rights r' b))))"
  by (blast intro: rights_le_trans rights_le_placePiece rights_le_removePiece
      rights_le_clear_rights)

lemma rights_le_make_castling: "rights_le b (make_castling m b)"
  unfolding make_castling_def by (simp add: rights_le_castle rights_le_refl)

lemma rights_le_clear2: "rights_le b (clear_rights r (clear_rights r' b))"
  by (blast intro: rights_le_trans rights_le_clear_rights)

lemma rights_le_make_king_rights: "rights_le b (make_king_rights m b)"
proof -
  let ?b1 = "if move_piece m = makePiece King (sideToMove b) \<and> sideToMove b = White
             then clear_rights whiteQueenSideCastling (clear_rights whiteKingSideCastling b)
             else b"
  have 1: "rights_le b ?b1" by (simp add: rights_le_clear2 rights_le_refl)
  have 2: "rights_le ?b1 (make_king_rights m b)"
    unfolding make_king_rights_def Let_def by (simp add: rights_le_clear2 rights_le_refl)
  show ?thesis by (rule rights_le_trans [OF 1 2])
qed

lemma rights_le_make_rook_rights: "rights_le b (make_rook_rights m b)"
  by (simp add: make_rook_rights_def rights_le_clear_rights rights_le_refl)

lemma rights_le_make_capture_rights: "rights_le b (make_capture_rights m b)"
  by (simp add: make_capture_rights_def rights_le_clear_rights rights_le_refl)

lemma rights_le_make_enpassant_capture: "rights_le b (make_enpassant_capture m b)"
  by (simp add: make_enpassant_capture_def rights_le_removePiece rights_le_refl)

lemma rights_le_make_enpassant_square: "rights_le b (make_enpassant_square m b)"
  by (simp add: make_enpassant_square_def rights_le_def Let_def)

lemma rights_le_make_pieces: "rights_le b (make_pieces m b)"
  by (simp add: make_pieces_def rights_le_def placePiece_def removePiece_def Let_def)

lemma makemove_rights_monotone: "rights_le b (makemove m b)"
proof -
  let ?b0 = "b\<lparr>storeInfo := snapshot b # storeInfo b\<rparr>"
  let ?b1 = "make_castling m ?b0"
  let ?b2 = "make_king_rights m ?b1"
  let ?b3 = "make_rook_rights m ?b2"
  let ?b4 = "make_capture_rights m ?b3"
  let ?b5 = "make_enpassant_capture m ?b4"
  let ?b6 = "make_enpassant_square m ?b5"
  let ?b7 = "make_pieces m ?b6"
  have 0: "rights_le b ?b0" by (simp add: rights_le_def)
  have 1: "rights_le b ?b1" by (rule rights_le_trans [OF 0 rights_le_make_castling])
  have 2: "rights_le b ?b2" by (rule rights_le_trans [OF 1 rights_le_make_king_rights])
  have 3: "rights_le b ?b3" by (rule rights_le_trans [OF 2 rights_le_make_rook_rights])
  have 4: "rights_le b ?b4" by (rule rights_le_trans [OF 3 rights_le_make_capture_rights])
  have 5: "rights_le b ?b5" by (rule rights_le_trans [OF 4 rights_le_make_enpassant_capture])
  have 6: "rights_le b ?b6" by (rule rights_le_trans [OF 5 rights_le_make_enpassant_square])
  have 7: "rights_le b ?b7" by (rule rights_le_trans [OF 6 rights_le_make_pieces])
  have "makemove m b = ?b7\<lparr>sideToMove := opposite (sideToMove ?b7)\<rparr>"
    by (simp add: makemove_def Let_def)
  with 7 show ?thesis by (simp add: rights_le_def)
qed

text \<open>
  Claim C4 says that \<^verbatim>\<open>makemove\<close> only ever clears castling rights (which
  \<open>makemove_rights_monotone\<close> above proves) and that capturing a rook on a1, h1, a8 or h8
  clears the right of that corner. The code fails the second part for the black corners:
  the branch for a8 and h8 hangs on an \<^verbatim>\<open>else if\<close> whose condition repeats the one of the
  \<^verbatim>\<open>if\<close> before it, so it never runs. In \<^verbatim>\<open>4k2r/8/8/8/8/8/8/B3K3 w k - 0 1\<close> the bishop
  takes the rook on h8, and Black still has the right to castle short afterwards.
\<close>

theorem capture_on_h8_keeps_right:
  "move_capture bishop_takes_h8
   \<and> move_target bishop_takes_h8 = SQ_H8
   \<and> bit (Rooks (from_FEN ''4k2r/8/8/8/8/8/8/B3K3 w k - 0 1'') Black) SQ_H8
   \<and> castlingRights (makemove bishop_takes_h8 (from_FEN ''4k2r/8/8/8/8/8/8/B3K3 w k - 0 1''))
         AND blackKingSideCastling = blackKingSideCastling"
  unfolding corner_rook_FEN
  by (simp add: corner_rook_position_def bishop_takes_h8_def tables prims bdefs mdefs Move_def
      ep_offset_def Let_def cong: evalcong)

section \<open>The hash key\<close>

lemma key_only_step:
  "hash_piece_step z sq (b\<lparr>hashKey := h\<rparr>) =
     b\<lparr>hashKey := h XOR RANDOM_ARRAY z (64 * hash_piece z (piece_at b sq) + sq)\<rparr>"
  by (simp add: hash_piece_step_def updateKeyPiece_def piece_at_def)

lemma key_only_fold:
  "\<exists>h'. fold (hash_piece_step z) sqs (b\<lparr>hashKey := h\<rparr>) = b\<lparr>hashKey := h'\<rparr>"
proof (induction sqs arbitrary: h)
  case Nil
  show ?case by auto
next
  case (Cons sq sqs)
  show ?case using Cons.IH by (simp add: key_only_step)
qed

lemma key_only_enpassant: "\<exists>h'. hash_enpassant z (b\<lparr>hashKey := h\<rparr>) = b\<lparr>hashKey := h'\<rparr>"
  by (auto simp: hash_enpassant_def updateKeyEnPassant_def Let_def)

lemma key_only_side:
  "\<exists>h'. (if sideToMove (b\<lparr>hashKey := h\<rparr>) = White
          then updateKeySideToMove z (b\<lparr>hashKey := h\<rparr>) else b\<lparr>hashKey := h\<rparr>)
        = b\<lparr>hashKey := h'\<rparr>"
  by (auto simp: updateKeySideToMove_def)

lemma key_only_castling: "\<exists>h'. updateKeyCastling z (b\<lparr>hashKey := h\<rparr>) = b\<lparr>hashKey := h'\<rparr>"
  by (auto simp: updateKeyCastling_def)

text \<open>\<^verbatim>\<open>hash()\<close> writes the hash key and nothing else.\<close>

lemma hash_key_only: "\<exists>h. hash z b = b\<lparr>hashKey := h\<rparr>"
proof -
  let ?b0 = "b\<lparr>hashKey := 0\<rparr>"
  obtain h1 where 1:
    "fold (hash_piece_step z) (squares (allPieces ?b0 White)) ?b0 = b\<lparr>hashKey := h1\<rparr>"
    using key_only_fold by blast
  obtain h2 where 2:
    "fold (hash_piece_step z) (squares (allPieces ?b0 Black)) (b\<lparr>hashKey := h1\<rparr>)
       = b\<lparr>hashKey := h2\<rparr>"
    using key_only_fold by blast
  obtain h3 where 3: "hash_enpassant z (b\<lparr>hashKey := h2\<rparr>) = b\<lparr>hashKey := h3\<rparr>"
    using key_only_enpassant by blast
  obtain h4 where 4:
    "(if sideToMove (b\<lparr>hashKey := h3\<rparr>) = White
      then updateKeySideToMove z (b\<lparr>hashKey := h3\<rparr>) else b\<lparr>hashKey := h3\<rparr>)
       = b\<lparr>hashKey := h4\<rparr>"
    using key_only_side by blast
  obtain h5 where 5: "updateKeyCastling z (b\<lparr>hashKey := h4\<rparr>) = b\<lparr>hashKey := h5\<rparr>"
    using key_only_castling by blast
  have "hash z b = b\<lparr>hashKey := h5\<rparr>"
    unfolding hash_def Let_def 1 2 3 4 5 ..
  then show ?thesis ..
qed

text \<open>What \<^verbatim>\<open>hash()\<close> computes does not depend on the key stored before the call.\<close>

lemma hash_ignores_key: "hash z (b\<lparr>hashKey := h\<rparr>) = hash z b"
  by (simp add: hash_def)

lemma hash_idem: "hash z (hash z b) = hash z b"
proof -
  obtain h where "hash z b = b\<lparr>hashKey := h\<rparr>" using hash_key_only by blast
  then show ?thesis by (simp add: hash_ignores_key)
qed

lemma makemove_hashKey: "hashKey (makemove m b) = hashKey b"
  using untouched_makemove [of b m] by (simp add: untouched_def)

text \<open>
  Claim C6 says that the stored hash key equals the hash recomputed from scratch after
  FEN parsing and after every make. The first half holds. The second fails:
  \<^verbatim>\<open>makemove\<close> in \<^verbatim>\<open>chess.hpp\<close> never assigns the key. From
  \<^verbatim>\<open>8/8/8/8/8/4k3/8/4K3 w - - 0 1\<close>, after the king goes from e1 to d1, the stored key is
  still the one of the position before the move and differs from the recomputed one
  (under the stand-in tables \<open>sample_keys\<close>).
\<close>

theorem makemove_keeps_stale_hash:
  "hashKey (makemove (Move 4 3 WhiteKing None_piece 0 0 0 0)
      (from_FEN ''8/8/8/8/8/4k3/8/4K3 w - - 0 1''))
   \<noteq> hashKey (hash sample_keys (makemove (Move 4 3 WhiteKing None_piece 0 0 0 0)
      (from_FEN ''8/8/8/8/8/4k3/8/4K3 w - - 0 1'')))"
  unfolding kings_FEN by code_simp

text \<open>
  Claim C6 as amended. After FEN parsing the stored hash key equals the hash recomputed
  from scratch on the parsed position, for any tables; \<^verbatim>\<open>makemove\<close> leaves the stored key
  as it was before the move.
\<close>

theorem hash_after_parse_and_make:
  "hashKey (parseFEN z FEN b) = hashKey (hash z (parseFEN z FEN b))
   \<and> hashKey (makemove m b) = hashKey b"
  by (simp add: parseFEN_def Let_def hash_idem makemove_hashKey)

section \<open>The clocks after FEN parsing\<close>

lemma clocks_place_step:
  "halfMoveClock (snd (place_step ch st)) = halfMoveClock (snd st)
   \<and> fullMoveCounter (snd (place_step ch st)) = fullMoveCounter (snd st)"
  by (simp add: place_step_def placePiece_def split: option.split)

lemma clocks_place_fold:
  "halfMoveClock (snd (fold place_step pieces st)) = halfMoveClock (snd st)
   \<and> fullMoveCounter (snd (fold place_step pieces st)) = fullMoveCounter (snd st)"
proof (induction pieces arbitrary: st)
  case Nil
  show ?case by simp
next
  case (Cons ch pieces)
  show ?case using Cons.IH [of "place_step ch st"] clocks_place_step [of ch st] by simp
qed

lemma clocks_castling_fold:
  "halfMoveClock (fold castling_step castling b) = halfMoveClock b
   \<and> fullMoveCounter (fold castling_step castling b) = fullMoveCounter b"
proof (induction castling arbitrary: b)
  case Nil
  show ?case by simp
next
  case (Cons ch castling)
  have "halfMoveClock (castling_step ch b) = halfMoveClock b
        \<and> fullMoveCounter (castling_step ch b) = fullMoveCounter b"
    by (simp add: castling_step_def)
  then show ?case using Cons.IH [of "castling_step ch b"] by simp
qed

lemma clocks_hash:
  "halfMoveClock (hash z b) = halfMoveClock b \<and> fullMoveCounter (hash z b) = fullMoveCounter b"
proof -
  obtain h where "hash z b = b\<lparr>hashKey := h\<rparr>" using hash_key_only by blast
  then show ?thesis by simp
qed

lemma clocks_parseFEN:
  "halfMoveClock (parseFEN z FEN b) = 0 \<and> fullMoveCounter (parseFEN z FEN b) = 1"
  by (simp add: parseFEN_def Let_def clocks_hash clocks_castling_fold parse_enpassant_def
      clocks_place_fold reset_board_def)

text \<open>
  Claim C9 says that parsing sets the halfmove clock and the fullmove counter from
  fields 5 and 6 of the FEN. It fails: \<^verbatim>\<open>parseFEN\<close> reads four fields only. For
  \<^verbatim>\<open>rnbq1k1r/pp1Pbppp/2p5/8/2B5/8/PPP1NnPP/RNBQK2R w KQ - 1 8\<close> (with the trailing space
  that lets the tokenizer see the last field) the clock is not 1 and the counter is not 8.
\<close>

theorem parseFEN_ignores_clock_fields:
  "\<not> (halfMoveClock (from_FEN ''rnbq1k1r/pp1Pbppp/2p5/8/2B5/8/PPP1NnPP/RNBQK2R w KQ - 1 8 '') = 1
      \<and> fullMoveCounter (from_FEN ''rnbq1k1r/pp1Pbppp/2p5/8/2B5/8/PPP1NnPP/RNBQK2R w KQ - 1 8 '') = 8)"
  by (simp add: from_FEN_def clocks_parseFEN)

text \<open>
  Claim C9 as amended. Whatever the FEN string holds, with or without fields 5 and 6,
  parsing leaves the halfmove clock at 0 and the fullmove counter at 1.
\<close>

theorem parseFEN_clocks:
  "halfMoveClock (parseFEN z FEN b) = 0 \<and> fullMoveCounter (parseFEN z FEN b) = 1"
  by (rule clocks_parseFEN)

section \<open>The game-end predicates\<close>

lemma kings_generate:
  "generateLegalMoves kings_position =
     ([Move 4 3 WhiteKing None_piece 0 0 0 0, Move 4 5 WhiteKing None_piece 0 0 0 0,
       Move 4 11 WhiteKing None_piece 0 0 0 0, Move 4 12 WhiteKing None_piece 0 0 0 0,
       Move 4 13 WhiteKing None_piece 0 0 0 0], kings_position)"
  by (simp add: kings_position_def tables prims bdefs adefs gdefs Let_def cong: evalcong)




section \<open>The generator leaves the position as it found it\<close>

lemma length_SQUARE_BB: "length SQUARE_BB = 64"
  by (simp add: SQUARE_BB_def)

lemma SQUARE_BB_all: "list_all (\<lambda>n. SQUARE_BB ! n = push_bit n 1) all_squares"
  by (simp add: all_squares_eq SQUARE_BB_def)

lemma SQUARE_BB_push_bit: "lookup SQUARE_BB n = push_bit n 1"
proof (cases "n < 64")
  case True
  then have "n \<in> set all_squares" by (simp add: all_squares_def)
  with SQUARE_BB_all have "SQUARE_BB ! n = push_bit n 1" by (simp add: list_all_iff)
  with True show ?thesis by (simp add: lookup_def length_SQUARE_BB)
next
  case False
  then have "push_bit n (1 :: 64 word) = 0" by (simp add: push_bit_word_beyond)
  with False show ?thesis by (simp add: lookup_def length_SQUARE_BB)
qed

lemma bit_of_and_push_bit:
  fixes x :: "64 word"
  shows "x AND push_bit n 1 \<noteq> 0 \<longleftrightarrow> bit x n"
  by (simp add: push_bit_of_1 and_exp_eq_0_iff_not_bit)

lemma clear_then_set:
  fixes x :: "64 word"
  assumes "bit x q"
  shows "(x AND NOT (push_bit q 1)) OR push_bit q 1 = x"
  using assms by (intro bit_eqI) (auto simp: bit_simps)

lemma set_then_clear:
  fixes x :: "64 word"
  assumes "x AND push_bit s 1 = 0"
  shows "(x OR push_bit s 1) AND NOT (push_bit s 1) = x"
proof -
  have "\<not> bit x s" using assms bit_of_and_push_bit [of x s] by simp
  then show ?thesis by (intro bit_eqI) (auto simp: bit_simps)
qed

lemma clear_keeps_zero:
  fixes x :: "64 word"
  assumes "x AND s = 0"
  shows "(x AND NOT q) AND s = 0"
proof -
  have "(x AND NOT q) AND s = (x AND s) AND NOT q" by (simp add: ac_simps)
  with assms show ?thesis by simp
qed

lemma shl1_clear_then_set:
  fixes y :: "64 word"
  assumes "y AND shl1 i \<noteq> 0"
  shows "(y AND NOT (shl1 i)) OR shl1 i = y"
proof (cases "0 \<le> i \<and> i < 64")
  case True
  then have s: "shl1 i = push_bit (nat i) 1" by (simp add: shl1_def)
  from assms have "y AND push_bit (nat i) 1 \<noteq> 0" unfolding s .
  then have "bit y (nat i)" by (simp only: bit_of_and_push_bit)
  then show ?thesis unfolding s by (rule clear_then_set)
next
  case False
  then have "shl1 i = 0" by (auto simp: shl1_def)
  with assms show ?thesis by simp
qed

lemma lookup_nth: "i < length xs \<Longrightarrow> lookup xs i = xs ! i"
  by (simp add: lookup_def)

lemma ep_test_roundtrip:
  assumes len: "length (PiecesBB b) = 12" "length (board b) = 64"
    and ep: "enpassantSquare b < 64" "lookup (board b) (enpassantSquare b) = None_piece"
    and own: "Pawns b c AND push_bit (enpassantSquare b) 1 = 0"
    and opp: "Pawns b (opposite c) AND shl1 (int (enpassantSquare b) + ep_offset c) \<noteq> 0"
    and sq: "bit (Pawns b c) sq"
  shows "ep_test_undo c sq (ep_test_setup c sq b) = b"
proof -
  let ?ep = "enpassantSquare b"
  let ?xs = "PiecesBB b"
  let ?cap = "shl1 (int ?ep + ep_offset c)"
  have brd: "(board b)[?ep := None_piece] = board b"
    using ep len by (simp add: lookup_nth list_update_same_conv)
  show ?thesis
  proof (cases c)
    case White
    have x: "(?xs ! 0 AND NOT (push_bit sq 1)) AND push_bit ?ep 1 = 0"
      using own len White by (intro clear_keeps_zero) (simp add: Pawns_def lookup_nth)
    have a: "((?xs ! 0 AND NOT (push_bit sq 1)) OR push_bit ?ep 1) AND NOT (push_bit ?ep 1)
              = ?xs ! 0 AND NOT (push_bit sq 1)"
      by (rule set_then_clear [OF x])
    have b: "(?xs ! 0 AND NOT (push_bit sq 1)) OR push_bit sq 1 = ?xs ! 0"
      using sq len White by (intro clear_then_set) (simp add: Pawns_def lookup_nth)
    have c: "(?xs ! 6 AND NOT ?cap) OR ?cap = ?xs ! 6"
      using opp len White by (intro shl1_clear_then_set) (simp add: Pawns_def lookup_nth)
    have "PiecesBB (ep_test_undo c sq (ep_test_setup c sq b)) = ?xs"
      using len White
      by (simp add: ep_test_undo_def ep_test_setup_def placePiece_def removePiece_def Let_def
          makePiece_def lookup_nth SQUARE_BB_push_bit a b c [unfolded White] list_update_swap [of 0 6]
          del: push_bit_of_1)
    moreover have "board (ep_test_undo c sq (ep_test_setup c sq b)) = board b"
      by (simp add: ep_test_undo_def ep_test_setup_def placePiece_def removePiece_def Let_def brd [unfolded None_piece_def])
    ultimately show ?thesis
      by (simp add: ep_test_undo_def ep_test_setup_def placePiece_def removePiece_def Let_def)
  next
    case Black
    have x: "(?xs ! 6 AND NOT (push_bit sq 1)) AND push_bit ?ep 1 = 0"
      using own len Black by (intro clear_keeps_zero) (simp add: Pawns_def lookup_nth)
    have a: "((?xs ! 6 AND NOT (push_bit sq 1)) OR push_bit ?ep 1) AND NOT (push_bit ?ep 1)
              = ?xs ! 6 AND NOT (push_bit sq 1)"
      by (rule set_then_clear [OF x])
    have b: "(?xs ! 6 AND NOT (push_bit sq 1)) OR push_bit sq 1 = ?xs ! 6"
      using sq len Black by (intro clear_then_set) (simp add: Pawns_def lookup_nth)
    have c: "(?xs ! 0 AND NOT ?cap) OR ?cap = ?xs ! 0"
      using opp len Black by (intro shl1_clear_then_set) (simp add: Pawns_def lookup_nth)
    have "PiecesBB (ep_test_undo c sq (ep_test_setup c sq b)) = ?xs"
      using len Black
      by (simp add: ep_test_undo_def ep_test_setup_def placePiece_def removePiece_def Let_def
          makePiece_def lookup_nth SQUARE_BB_push_bit a b c [unfolded Black] list_update_swap [of 0 6]
          del: push_bit_of_1)
    moreover have "board (ep_test_undo c sq (ep_test_setup c sq b)) = board b"
      by (simp add: ep_test_undo_def ep_test_setup_def placePiece_def removePiece_def Let_def brd [unfolded None_piece_def])
    ultimately show ?thesis
      by (simp add: ep_test_undo_def ep_test_setup_def placePiece_def removePiece_def Let_def)
  qed
qed


lemma bsf_bit:
  assumes "bb \<noteq> 0"
  shows "bit bb (bsf bb)"
proof -
  from assms obtain n where n: "bit bb n" by (auto simp: bit_eq_iff)
  then have "n < 64" using bit_imp_le_length [of bb n] by simp
  with n have "\<exists>i \<in> set all_squares. bit bb i" by (auto simp: all_squares_def)
  then obtain i where i: "find (bit bb) all_squares = Some i"
    by (cases "find (bit bb) all_squares") (auto simp: find_None_iff)
  then have "bit bb i" by (auto simp: find_Some_iff)
  moreover from i have "bsf bb = i" by (simp add: bsf_def)
  ultimately show ?thesis by simp
qed

lemma squares_bit: "sq \<in> set (squares bb) \<Longrightarrow> bit bb sq"
proof (induction bb rule: squares.induct)
  case (1 bb)
  show ?case
  proof (cases "bb = 0")
    case True
    with "1.prems" show ?thesis by (simp add: squares.simps)
  next
    case False
    with "1.prems" have "sq = bsf bb \<or> sq \<in> set (squares (bb AND (bb - 1)))"
      by (subst (asm) squares.simps) (simp add: poplsb_def)
    then show ?thesis
    proof
      assume "sq = bsf bb"
      with False show ?thesis by (simp add: bsf_bit)
    next
      assume "sq \<in> set (squares (bb AND (bb - 1)))"
      with False "1.IH" have "bit (bb AND (bb - 1)) sq" by (simp add: poplsb_def)
      then show ?thesis by (simp add: bit_and_iff)
    qed
  qed
qed

lemma LegalPawnMoves_board:
  assumes ok: "position_ok b" and sq: "bit (Pawns b (sideToMove b)) sq"
  shows "snd (LegalPawnMoves (sideToMove b) sq b) = b"
proof (cases "enpassantSquare b = NO_SQ")
  case True
  then show ?thesis by (simp add: LegalPawnMoves_def Let_def)
next
  case False
  with ok have "ep_test_undo (sideToMove b) sq (ep_test_setup (sideToMove b) sq b) = b"
    using sq by (intro ep_test_roundtrip) (auto simp: position_ok_def ep_consistent_def Let_def)
  then show ?thesis by (simp add: LegalPawnMoves_def Let_def)
qed

lemma pawn_step_board:
  assumes "position_ok (snd mb)" and "bit (Pawns (snd mb) (sideToMove (snd mb))) source"
  shows "snd (pawn_step source mb) = snd mb"
  using assms by (simp add: pawn_step_def Let_def LegalPawnMoves_board)

lemma pawn_fold_board:
  assumes "position_ok (snd mb)"
    and "\<forall>source \<in> set sqs. bit (Pawns (snd mb) (sideToMove (snd mb))) source"
  shows "snd (fold pawn_step sqs mb) = snd mb"
  using assms
proof (induction sqs arbitrary: mb)
  case Nil
  show ?case by simp
next
  case (Cons source sqs)
  have s: "snd (pawn_step source mb) = snd mb"
    using Cons.prems by (intro pawn_step_board) auto
  have "snd (fold pawn_step sqs (pawn_step source mb)) = snd (pawn_step source mb)"
    using Cons.prems s by (intro Cons.IH) auto
  with s show ?case by simp
qed

lemma generate_non_king_board:
  assumes "position_ok b"
  shows "snd (generate_non_king b) = b"
proof -
  have "snd (fold pawn_step (squares (Pawns b (sideToMove b))) ([], b)) = b"
    using assms pawn_fold_board [of "([], b)" "squares (Pawns b (sideToMove b))"]
    by (simp add: squares_bit)
  then show ?thesis by (simp add: generate_non_king_def Let_def)
qed

lemma LegalKingMoves_board:
  assumes "bit (Kings b c) sq"
  shows "snd (LegalKingMoves c sq b) = b"
proof -
  let ?k = "King + 6 * color_index c"
  let ?xs = "PiecesBB b"
  have k: "lookup ?xs ?k = Kings b c" by (simp add: Kings_def ac_simps)
  have klt: "?k < length ?xs"
  proof (rule ccontr)
    assume "\<not> ?k < length ?xs"
    then have "Kings b c = 0" unfolding k [symmetric] by (simp add: lookup_def)
    with assms show False by simp
  qed
  have "(lookup ?xs ?k AND NOT (push_bit sq 1)) OR push_bit sq 1 = lookup ?xs ?k"
    using assms unfolding k by (rule clear_then_set)
  then have "(?xs ! ?k AND NOT (push_bit sq 1)) OR push_bit sq 1 = ?xs ! ?k"
    using klt by (simp add: lookup_nth del: push_bit_of_1)
  then show ?thesis
    using klt by (simp add: LegalKingMoves_def Let_def lookup_nth del: push_bit_of_1)
qed

lemma generate_king_board:
  assumes "Kings (snd mb) (sideToMove (snd mb)) \<noteq> 0"
  shows "snd (generate_king mb) = snd mb"
proof -
  have "bit (Kings (snd mb) (sideToMove (snd mb))) (fst (poplsb (Kings (snd mb) (sideToMove (snd mb)))))"
    using assms by (simp add: poplsb_def bsf_bit)
  then show ?thesis by (simp add: generate_king_def Let_def LegalKingMoves_board)
qed


lemma same_position_doCheckmask: "same_position b (snd (doCheckmask c sq b))"
  by (simp add: doCheckmask_def Let_def split_beta same_position_def)

lemma same_position_create_pins: "same_position b (create_pins c sq b)"
  by (simp add: create_pins_def Let_def same_position_def)

lemma same_position_init: "same_position b (init c sq b)"
  using same_position_doCheckmask [of b c sq]
  by (simp add: init_def Let_def same_position_def create_pins_def)

lemma position_ok_same:
  assumes "same_position b b'"
  shows "position_ok b' = position_ok b"
  using assms
  by (simp add: same_position_def position_ok_def ep_consistent_def Kings_def Pawns_def Let_def)

lemma generateLegalMoves_board:
  assumes "position_ok b"
  shows "snd (generateLegalMoves b) = init (sideToMove b) (KingSq b (sideToMove b)) b"
proof -
  let ?b1 = "init (sideToMove b) (KingSq b (sideToMove b)) b"
  let ?mb = "if doubleCheck ?b1 < 2 then generate_non_king ?b1 else ([], ?b1)"
  have same: "same_position b ?b1" by (rule same_position_init)
  with assms have ok: "position_ok ?b1" by (simp add: position_ok_same)
  then have mb: "snd ?mb = ?b1" by (simp add: generate_non_king_board)
  from ok have "Kings ?b1 (sideToMove ?b1) \<noteq> 0" by (simp add: position_ok_def)
  with mb have "snd (generate_king ?mb) = ?b1"
    using generate_king_board [of ?mb] by simp
  then show ?thesis by (simp add: generateLegalMoves_def Let_def)
qed

text \<open>
  Claim C10 says that generating the move list leaves bitboards, mailbox, side to move,
  en-passant square and castling rights as they were. As stated, for every board, it
  fails: after its test the generator puts the captured pawn back with an \<^verbatim>\<open>|=\<close>, whether
  or not a pawn stood there. The parser accepts \<^verbatim>\<open>8/8/8/4P3/8/8/8/K6k w - d6 0 1\<close>, where
  the en-passant square d6 has no black pawn behind it, and generating the moves adds a
  black pawn on d5 to the bitboards.
\<close>

theorem generate_adds_phantom_pawn:
  "PiecesBB (snd (generateLegalMoves (from_FEN ''8/8/8/4P3/8/8/8/K6k w - d6 0 1'')))
   \<noteq> PiecesBB (from_FEN ''8/8/8/4P3/8/8/8/K6k w - d6 0 1'')"
  unfolding phantom_FEN
  by (simp add: phantom_position_def tables prims bdefs adefs gdefs Let_def cong: evalcong)

text \<open>
  Claim C10 as amended. In a position that satisfies \<open>position_ok\<close> (the arrays have
  their sizes, the side to move has a king, and the en-passant square, if there is one,
  is empty with an enemy pawn right behind it), generating the move list leaves the
  twelve bitboards, the mailbox, the side to move, the en-passant square and the
  castling rights equal to their values before the call: the writes of the en-passant
  test and the lifting of the king are undone.
\<close>

theorem generateLegalMoves_frame:
  assumes "position_ok b"
  shows "PiecesBB (snd (generateLegalMoves b)) = PiecesBB b
    \<and> board (snd (generateLegalMoves b)) = board b
    \<and> sideToMove (snd (generateLegalMoves b)) = sideToMove b
    \<and> enpassantSquare (snd (generateLegalMoves b)) = enpassantSquare b
    \<and> castlingRights (snd (generateLegalMoves b)) = castlingRights b"
  using same_position_init [of b "sideToMove b" "KingSq b (sideToMove b)"]
  by (simp add: generateLegalMoves_board [OF assms] same_position_def)

lemma ep_position_ok: "position_ok ep_position"
  by (simp add: ep_position_def position_ok_def ep_consistent_def Kings_def Pawns_def lookup_def
      shl1_def ep_offset_def Let_def)

text \<open>
  \<^verbatim>\<open>8/8/8/8/3pP3/8/8/K6k b - e3 0 1\<close> satisfies \<open>position_ok\<close>, and there the black pawn on
  d4 attacks the en-passant square, so the generator runs its test and takes it back.
\<close>

theorem generateLegalMoves_frame_witness:
  "position_ok (from_FEN ''8/8/8/8/3pP3/8/8/K6k b - e3 0 1'')
   \<and> PiecesBB (snd (generateLegalMoves (from_FEN ''8/8/8/8/3pP3/8/8/K6k b - e3 0 1'')))
       = PiecesBB (from_FEN ''8/8/8/8/3pP3/8/8/K6k b - e3 0 1'')
   \<and> board (snd (generateLegalMoves (from_FEN ''8/8/8/8/3pP3/8/8/K6k b - e3 0 1'')))
       = board (from_FEN ''8/8/8/8/3pP3/8/8/K6k b - e3 0 1'')
   \<and> sideToMove (snd (generateLegalMoves (from_FEN ''8/8/8/8/3pP3/8/8/K6k b - e3 0 1''))) = Black
   \<and> enpassantSquare (snd (generateLegalMoves (from_FEN ''8/8/8/8/3pP3/8/8/K6k b - e3 0 1''))) = 20
   \<and> castlingRights (snd (generateLegalMoves (from_FEN ''8/8/8/8/3pP3/8/8/K6k b - e3 0 1''))) = 0"
  using generateLegalMoves_frame [OF ep_position_ok] ep_position_ok
  by (simp add: ep_position_FEN) (simp add: ep_position_def)

section \<open>The attack query and the king\<close>

text \<open>
  Claim C2 says that \<^verbatim>\<open>isSquareAttacked(sq, c)\<close> is true iff some pawn, knight, bishop,
  rook, queen or king of colour \<open>c\<close> attacks \<open>sq\<close>. The code has no line for the king. In
  \<^verbatim>\<open>8/8/8/8/8/4k3/8/4K3 w - - 0 1\<close> the black king on e3 (square 20) attacks e2 (square
  12) and is the only piece that does; the query on e2 answers false.
\<close>

theorem isSquareAttacked_misses_king:
  "\<not> isSquareAttacked (from_FEN ''8/8/8/8/8/4k3/8/4K3 w - - 0 1'') 12 Black
   \<and> spec_attackers (from_FEN ''8/8/8/8/8/4k3/8/4K3 w - - 0 1'') Black 12 = [20]
   \<and> piece_on (from_FEN ''8/8/8/8/8/4k3/8/4K3 w - - 0 1'') BlackKing 20"
  unfolding kings_FEN
  by (simp add: kings_position_def tables prims bdefs sdefs Let_def cong: evalcong)

text \<open>
  A consequence for the generator: from the same position it returns the king move from
  e1 to e2, next to the black king.
\<close>

lemma kings_after_e2:
  "spec_attackers (makemove (Move 4 12 WhiteKing None_piece 0 0 0 0) kings_position) Black
     (KingSq (makemove (Move 4 12 WhiteKing None_piece 0 0 0 0) kings_position) White) = [20]"
  by (simp add: kings_position_def tables prims bdefs mdefs sdefs Move_def ep_offset_def
      Let_def cong: evalcong)

lemma king_steps_next_to_king:
  "Move 4 12 WhiteKing None_piece 0 0 0 0
     \<in> set (fst (generateLegalMoves (from_FEN ''8/8/8/8/8/4k3/8/4K3 w - - 0 1'')))
   \<and> spec_isSquareAttacked
        (makemove (Move 4 12 WhiteKing None_piece 0 0 0 0)
           (snd (generateLegalMoves (from_FEN ''8/8/8/8/8/4k3/8/4K3 w - - 0 1''))))
        (KingSq (makemove (Move 4 12 WhiteKing None_piece 0 0 0 0)
           (snd (generateLegalMoves (from_FEN ''8/8/8/8/8/4k3/8/4K3 w - - 0 1'')))) White)
        Black"
  by (simp add: kings_FEN kings_generate spec_isSquareAttacked_def
      kings_after_e2 [unfolded WhiteKing_def None_piece_def])

section \<open>Two checkers on rook lines\<close>

lemma replicate_64:
  "replicate 64 x =
    [x, x, x, x, x, x, x, x, x, x, x, x, x, x, x, x, x, x, x, x, x, x, x, x, x, x, x, x, x, x, x, x,
     x, x, x, x, x, x, x, x, x, x, x, x, x, x, x, x, x, x, x, x, x, x, x, x, x, x, x, x, x, x, x, x]"
  by (simp add: eval_nat_numeral)

text \<open>
  The moves the generator returns before and after the promotion, in their packed form:
  the first of the eighteen is \<open>promotion_move\<close>, the first of the three is
  \<open>knight_block\<close>.
\<close>

lemma before_promotion_generate:
  "generateLegalMoves before_promotion_position =
     ([1314548, 1249012, 1183476, 1117940, 798916, 799044, 799108, 799172, 799492, 800004,
       800516, 801028, 801540, 806978, 807106, 807490, 807554, 807618],
      before_promotion_position)"
  by (simp add: before_promotion_position_def tables prims bdefs adefs gdefs Let_def
      cong: evalcong)

lemma promotion_is_generated:
  "promotion_move \<in> set (fst (generateLegalMoves (from_FEN ''3nk1n1/4P3/8/8/8/8/8/2K1R3 w - - 0 1'')))"
  by (simp add: before_promotion_FEN before_promotion_generate promotion_move_def Move_def)

lemma after_promotion_eq: "after_promotion = after_promotion_position"
  unfolding after_promotion_def before_promotion_FEN before_promotion_generate snd_conv
  by (simp add: after_promotion_position_def before_promotion_position_def promotion_move_def
      replicate_64 tables prims bdefs mdefs Move_def ep_offset_def Let_def cong: evalcong)

lemma after_promotion_generate:
  "generateLegalMoves after_promotion_position =
     ([818494, 834940, 1883900],
      after_promotion_position\<lparr>checkMask := 4521260802379792, doubleCheck := 1\<rparr>)"
  by (simp add: after_promotion_position_def tables prims bdefs adefs gdefs Let_def
      cong: evalcong)

lemma knight_block_is_generated: "knight_block \<in> set (fst (generateLegalMoves after_promotion))"
  by (simp add: after_promotion_eq after_promotion_generate knight_block_def Move_def)

lemma after_block_attacked:
  "isSquareAttacked after_block (KingSq after_block Black) White
   \<and> spec_attackers after_block White (KingSq after_block Black) = [59]"
  unfolding after_block_def after_promotion_eq after_promotion_generate snd_conv
  by (simp add: after_promotion_position_def knight_block_def tables prims bdefs mdefs sdefs
      Move_def ep_offset_def Let_def cong: evalcong)

lemma after_promotion_checkers:
  "spec_checkers after_promotion_position Black = [4, 59]"
  by (simp add: after_promotion_position_def tables prims bdefs sdefs Let_def cong: evalcong)

lemma after_promotion_doubleCheck:
  "doubleCheck (init Black (KingSq after_promotion_position Black) after_promotion_position) = 1"
  by (simp add: after_promotion_position_def tables prims bdefs adefs Let_def cong: evalcong)

text \<open>
  Claim C5 says that after the analyzer has run, \<^verbatim>\<open>doubleCheck\<close> is the number of distinct
  checkers, saturating at 2. The code adds one per kind of attack (pawn, knight, bishop
  line, rook line), not one per piece. From \<^verbatim>\<open>3nk1n1/4P3/8/8/8/8/8/2K1R3 w - - 0 1\<close> the
  generated move e7xd8=Q leaves the black king on e8 in check from the queen on d8
  (square 59) along the rank and from the rook on e1 (square 4) along the file: two
  checkers, both on rook lines, and the counter is 1.
\<close>

theorem two_rook_line_checkers_count_as_one:
  "promotion_move \<in> set (fst (generateLegalMoves (from_FEN ''3nk1n1/4P3/8/8/8/8/8/2K1R3 w - - 0 1'')))
   \<and> spec_checkers after_promotion Black = [4, 59]
   \<and> doubleCheck (init Black (KingSq after_promotion Black) after_promotion) = 1"
  using promotion_is_generated
  by (simp add: after_promotion_eq after_promotion_checkers after_promotion_doubleCheck)

text \<open>
  Claim C1 says that every move the generator returns leaves the mover's own king not
  attacked. In the position just reached the counter is 1, so the generator treats the
  check as a single one by the rook and returns the knight move from g8 to e7, which
  blocks the file. After that move the black king is still attacked by the queen on d8,
  both by the specification's notion of attack and by the code's own query.
\<close>

theorem generator_leaves_king_in_check:
  "promotion_move \<in> set (fst (generateLegalMoves (from_FEN ''3nk1n1/4P3/8/8/8/8/8/2K1R3 w - - 0 1'')))
   \<and> knight_block \<in> set (fst (generateLegalMoves after_promotion))
   \<and> isSquareAttacked after_block (KingSq after_block Black) White
   \<and> spec_isSquareAttacked after_block (KingSq after_block Black) White"
  using promotion_is_generated knight_block_is_generated after_block_attacked
  by (simp add: spec_isSquareAttacked_def)

section \<open>En passant by a pinned pawn\<close>

lemma pinned_ep_test_passes:
  "\<not> isSquareAttacked (ep_test_setup White 36 pinned_ep_position)
        (KingSq (ep_test_setup White 36 pinned_ep_position) White) Black
   \<and> spec_attackers (ep_test_setup White 36 pinned_ep_position) Black
        (KingSq (ep_test_setup White 36 pinned_ep_position) White) = []"
  by (simp add: pinned_ep_position_def tables prims bdefs adefs sdefs Let_def cong: evalcong)

lemma pinned_ep_no_moves:
  "fst (LegalPawnMoves White 36
         (init White (KingSq pinned_ep_position White) pinned_ep_position)) = 0"
  by (simp add: pinned_ep_position_def tables prims bdefs adefs Let_def cong: evalcong)

text \<open>
  Claim C7 says that whenever an en-passant capture is otherwise legal the generator
  runs the speculative test and leaves the capture out exactly when the king would be
  attacked. In \<^verbatim>\<open>k6b/8/8/4Pp2/8/8/1K6/8 w - f6 0 1\<close> the white pawn on e5 (square 36)
  attacks the en-passant square f6 (square 45) and is pinned by the bishop on h8 along
  the diagonal on which f6 lies. With both pawns lifted and a white pawn on f6 the king
  on b2 is not attacked, so the test would keep the capture; but the generator returns
  from its branch for diagonally pinned pawns before the test, with the captures among
  enemy-occupied squares only, and the pawn gets no move at all.
\<close>

theorem pinned_pawn_loses_en_passant:
  "enpassantSquare (from_FEN ''k6b/8/8/4Pp2/8/8/1K6/8 w - f6 0 1'') = 45
   \<and> GetPawnAttacks 36 White AND push_bit 45 1 = push_bit 45 1
   \<and> spec_attackers (ep_test_setup White 36 (from_FEN ''k6b/8/8/4Pp2/8/8/1K6/8 w - f6 0 1''))
        Black
        (KingSq (ep_test_setup White 36 (from_FEN ''k6b/8/8/4Pp2/8/8/1K6/8 w - f6 0 1'')) White)
      = []
   \<and> fst (LegalPawnMoves White 36
        (init White (KingSq (from_FEN ''k6b/8/8/4Pp2/8/8/1K6/8 w - f6 0 1'') White)
           (from_FEN ''k6b/8/8/4Pp2/8/8/1K6/8 w - f6 0 1''))) = 0"
  unfolding pinned_ep_FEN
  using pinned_ep_test_passes pinned_ep_no_moves
  by (simp add: pinned_ep_position_def GetPawnAttacks_def lookup_def PAWN_ATTACKS_TABLE_White_def)


end
